theory Spec2Isabelle
  imports Main "HOL-Library.Word"
begin

section \<open>The script-module deserializer of torch/csrc/jit/import.cpp\<close>

text \<open>
  The embedding follows \<^verbatim>\<open>ScriptModuleDeserializer\<close> member by member. Every
  C++ exception is a value of \<open>error\<close>; a member function takes the deserializer
  state and returns it updated together with either an error or its result, so the
  state reached when an exception leaves the function is part of the model.

  Collaborators whose code is not in import.cpp (the container reader, the protobuf
  transcoder, \<^verbatim>\<open>caffe2::stoull\<close>, the scalar-type table, \<^verbatim>\<open>script::Module\<close> and
  \<^verbatim>\<open>import_methods\<close>) are parameters, gathered in the records \<open>reader\<close>,
  \<open>libs\<close> and \<open>module_api\<close>. The field \<open>trace\<close> of the state is a log of the calls made to these
  collaborators, in call order; it is written and never read by the model.
\<close>

subsection \<open>Descriptors (torch.proto messages)\<close>

type_synonym byte = "8 word"
type_synonym u64 = "64 word"

text \<open>\<^verbatim>\<open>RecordRef\<close>: the key is a decimal string, the size a 64-bit integer.\<close>

record record_ref =
  rr_key :: string
  rr_size :: u64

text \<open>\<^verbatim>\<open>TensorDef\<close>. The 64-bit fields are kept as words: the code only copies
  them or compares them for equality.\<close>

record tensor_def =
  td_dims :: "u64 list"
  td_strides :: "u64 list"
  td_offset :: u64
  td_data_type :: nat
  td_requires_grad :: bool
  td_data :: record_ref

record parameter_def =
  pd_name :: string
  pd_tensor_id :: u64
  pd_is_buffer :: bool

datatype module_def = ModuleDef
  (md_name: string)
  (md_optimize: bool)
  (md_submodules: "module_def list")
  (md_parameters: "parameter_def list")
  (md_torchscript_arena: record_ref)

record model_def =
  main_module :: module_def
  tensors :: "tensor_def list"

subsection \<open>Errors\<close>

datatype error =
    ArchiveReadError
  | MetadataTranscodeError string
  | InvalidProtobufOutput
  | InvalidRecordKey
  | UnsupportedDataType
  | StorageSizeMismatchError
  | InvalidTensorIdError
  | CodeArenaSizeMismatchError
  | ArchiveOpenError
  | ExternalError string

subsection \<open>Storages and tensors\<close>

text \<open>
  An \<^verbatim>\<open>at::Storage\<close> is a handle on a storage object that owns the fetched
  bytes. The storage objects live in the list \<open>storages\<close> of the state; a handle is
  an index into it, and copying a handle (into the map, into a tensor) copies the
  index. Two tensors are views over one buffer exactly when they hold the same index.
\<close>

record storage =
  st_data_type :: nat
  st_data_ptr :: "byte list"
  st_numel :: u64

record tensor =
  t_storage :: nat
  t_offset :: u64
  t_dims :: "u64 list"
  t_strides :: "u64 list"
  t_data_type :: nat
  t_requires_grad :: bool

subsection \<open>Collaborators\<close>

text \<open>\<^verbatim>\<open>PyTorchStreamReader\<close>: both calls return the bytes and their size, or throw.\<close>

record reader =
  getLastRecord :: "error + byte list \<times> u64"
  getRecordWithKey :: "u64 \<Rightarrow> error + byte list \<times> u64"

datatype 'h event =
    EvGetLastRecord
  | EvJsonToBinaryString "byte list"
  | EvGetRecordWithKey u64
  | EvModuleLookup "string list"
  | EvSetOptimized 'h bool
  | EvRegisterParameter 'h string tensor bool
  | EvImportMethods 'h "byte list" "tensor list"

text \<open>
  A stream is its fail bit and the bytes it delivers. \<open>PyTorchStreamReader\<close> is the
  constructor of the reader over a stream (it may throw);
  \<open>stoull\<close> is \<^verbatim>\<open>caffe2::stoull\<close> (\<open>None\<close> when it throws); \<open>itemsize\<close> is
  \<^verbatim>\<open>at::CPU(typeMetaToScalarType(DataTypeToTypeMeta(dt))).typeMeta().itemsize()\<close>
  (\<open>None\<close> when the data type has no scalar type and the conversion throws);
  \<open>JsonToBinaryString\<close> returns the status message when the status is not ok;
  \<open>ParseFromString\<close> is \<open>None\<close> when it returns false.
\<close>

datatype istream = IStream (fail: bool) (content: "byte list")

record libs =
  PyTorchStreamReader :: "istream \<Rightarrow> error + reader"
  JsonToBinaryString :: "byte list \<Rightarrow> string + byte list"
  ParseFromString :: "byte list \<Rightarrow> model_def option"
  stoull :: "string \<Rightarrow> u64 option"
  itemsize :: "nat \<Rightarrow> u64 option"

text \<open>
  The operations of \<^verbatim>\<open>script::Module\<close> that the deserializer calls, and
  \<^verbatim>\<open>import_methods\<close>, on a module handle \<open>'h\<close> in a world \<open>'w\<close> of module objects.
\<close>

record ('w, 'h) module_api =
  set_optimized :: "'h \<Rightarrow> bool \<Rightarrow> 'w \<Rightarrow> 'w"
  register_parameter :: "'h \<Rightarrow> string \<Rightarrow> tensor \<Rightarrow> bool \<Rightarrow> 'w \<Rightarrow> error + 'w"
  import_methods :: "'h \<Rightarrow> byte list \<Rightarrow> tensor list \<Rightarrow> 'w \<Rightarrow> error + 'w"

text \<open>\<^verbatim>\<open>ModuleLookup\<close>: the caller's callback, from a qualified name to a handle.\<close>

type_synonym ('w, 'h) module_lookup = "string list \<Rightarrow> 'w \<Rightarrow> (error + 'h) \<times> 'w"

subsection \<open>The deserializer state\<close>

record ('w, 'h) deserializer =
  reader_m :: reader
  moduleStack_m :: "string list"
  tensor_table_m :: "tensor list"
  storages :: "storage list"
  trace :: "'h event list"
  world :: 'w

definition log :: "'h event \<Rightarrow> ('w, 'h) deserializer \<Rightarrow> ('w, 'h) deserializer" where
  "log e s = s\<lparr>trace := trace s @ [e]\<rparr>"

subsection \<open>loadTensor and loadTensorTable\<close>

definition th_tensor :: "nat \<Rightarrow> tensor_def \<Rightarrow> tensor" where
  "th_tensor a tensor_proto =
     \<lparr>t_storage = a,
      t_offset = td_offset tensor_proto,
      t_dims = td_dims tensor_proto,
      t_strides = td_strides tensor_proto,
      t_data_type = td_data_type tensor_proto,
      t_requires_grad = td_requires_grad tensor_proto\<rparr>"

definition loadTensor ::
  "libs \<Rightarrow> tensor_def \<Rightarrow> (u64 \<rightharpoonup> nat) \<Rightarrow> ('w, 'h) deserializer \<Rightarrow>
     (error + tensor) \<times> (u64 \<rightharpoonup> nat) \<times> ('w, 'h) deserializer" where
  "loadTensor lib tensor_proto storageMap s =
     (case itemsize lib (td_data_type tensor_proto) of
        None \<Rightarrow> (Inl UnsupportedDataType, storageMap, s)
      | Some isz \<Rightarrow>
     (case stoull lib (rr_key (td_data tensor_proto)) of
        None \<Rightarrow> (Inl InvalidRecordKey, storageMap, s)
      | Some record_id \<Rightarrow>
     (case storageMap record_id of
        Some a \<Rightarrow> (Inr (th_tensor a tensor_proto), storageMap, s)
      | None \<Rightarrow>
          let s1 = log (EvGetRecordWithKey record_id) s in
          (case getRecordWithKey (reader_m s) record_id of
             Inl e \<Rightarrow> (Inl e, storageMap, s1)
           | Inr (storage_ptr, record_size) \<Rightarrow>
               if record_size \<noteq> rr_size (td_data tensor_proto)
               then (Inl StorageSizeMismatchError, storageMap, s1)
               else
                 let a = length (storages s1);
                     st = \<lparr>st_data_type = td_data_type tensor_proto,
                           st_data_ptr = storage_ptr,
                           st_numel = record_size div isz\<rparr>;
                     s2 = s1\<lparr>storages := storages s1 @ [st]\<rparr>
                 in (Inr (th_tensor a tensor_proto), storageMap(record_id \<mapsto> a), s2)))))"

fun loadTensors ::
  "libs \<Rightarrow> tensor_def list \<Rightarrow> (u64 \<rightharpoonup> nat) \<Rightarrow> ('w, 'h) deserializer \<Rightarrow>
     error option \<times> (u64 \<rightharpoonup> nat) \<times> ('w, 'h) deserializer" where
  "loadTensors lib [] storageMap s = (None, storageMap, s)"
| "loadTensors lib (t # ts) storageMap s =
     (case loadTensor lib t storageMap s of
        (Inl e, m, s') \<Rightarrow> (Some e, m, s')
      | (Inr v, m, s') \<Rightarrow>
          loadTensors lib ts m (s'\<lparr>tensor_table_m := tensor_table_m s' @ [v]\<rparr>))"

definition loadTensorTable ::
  "libs \<Rightarrow> model_def \<Rightarrow> ('w, 'h) deserializer \<Rightarrow>
     error option \<times> ('w, 'h) deserializer" where
  "loadTensorTable lib model s =
     (case loadTensors lib (tensors model) Map.empty s of (r, m, s') \<Rightarrow> (r, s'))"

subsection \<open>convertModule\<close>

text \<open>The loop over \<^verbatim>\<open>module_def.parameters\<close>; \<^verbatim>\<open>tensor_table_.at\<close> throws out of range.\<close>

fun convertModule_parameters ::
  "('w, 'h) module_api \<Rightarrow> 'h \<Rightarrow> parameter_def list \<Rightarrow> ('w, 'h) deserializer \<Rightarrow>
     error option \<times> ('w, 'h) deserializer" where
  "convertModule_parameters api module [] s = (None, s)"
| "convertModule_parameters api module (param_def # ps) s =
     (if unat (pd_tensor_id param_def) < length (tensor_table_m s)
      then
        let tensor = tensor_table_m s ! unat (pd_tensor_id param_def);
            s1 = log (EvRegisterParameter module (pd_name param_def) tensor
                        (pd_is_buffer param_def)) s
        in (case register_parameter api module (pd_name param_def) tensor
                   (pd_is_buffer param_def) (world s1) of
              Inl e \<Rightarrow> (Some e, s1)
            | Inr w \<Rightarrow> convertModule_parameters api module ps (s1\<lparr>world := w\<rparr>))
      else (Some InvalidTensorIdError, s))"

text \<open>The rest of the body: the code arena is fetched, checked and handed over.\<close>

definition convertModule_arena ::
  "libs \<Rightarrow> ('w, 'h) module_api \<Rightarrow> 'h \<Rightarrow> module_def \<Rightarrow> ('w, 'h) deserializer \<Rightarrow>
     error option \<times> ('w, 'h) deserializer" where
  "convertModule_arena lib api module m s =
     (case stoull lib (rr_key (md_torchscript_arena m)) of
        None \<Rightarrow> (Some InvalidRecordKey, s)
      | Some k \<Rightarrow>
          let s1 = log (EvGetRecordWithKey k) s in
          (case getRecordWithKey (reader_m s) k of
             Inl e \<Rightarrow> (Some e, s1)
           | Inr (data, sz) \<Rightarrow>
               if sz \<noteq> rr_size (md_torchscript_arena m)
               then (Some CodeArenaSizeMismatchError, s1)
               else
                 let data_str = take (unat sz) data;
                     s2 = log (EvImportMethods module data_str (tensor_table_m s1)) s1
                 in (case import_methods api module data_str (tensor_table_m s2) (world s2) of
                       Inl e \<Rightarrow> (Some e, s2)
                     | Inr w \<Rightarrow> (None, s2\<lparr>world := w\<rparr>))))"

text \<open>
  \<open>convertSubmodules\<close> is the loop over \<^verbatim>\<open>module_def.submodules\<close>. An exception
  leaves the loop before \<^verbatim>\<open>pop_back\<close>.
\<close>

fun convertModule ::
  "libs \<Rightarrow> ('w, 'h) module_api \<Rightarrow> ('w, 'h) module_lookup \<Rightarrow> module_def \<Rightarrow>
     ('w, 'h) deserializer \<Rightarrow> error option \<times> ('w, 'h) deserializer"
and convertSubmodules ::
  "libs \<Rightarrow> ('w, 'h) module_api \<Rightarrow> ('w, 'h) module_lookup \<Rightarrow> module_def list \<Rightarrow>
     ('w, 'h) deserializer \<Rightarrow> error option \<times> ('w, 'h) deserializer" where
  "convertModule lib api moduleLookup (ModuleDef nm opt subs params arena) s =
     (let s1 = log (EvModuleLookup (moduleStack_m s)) s in
      case moduleLookup (moduleStack_m s) (world s1) of
        (Inl e, w) \<Rightarrow> (Some e, s1\<lparr>world := w\<rparr>)
      | (Inr module, w) \<Rightarrow>
          let s2 = log (EvSetOptimized module opt) (s1\<lparr>world := w\<rparr>);
              s3 = s2\<lparr>world := set_optimized api module opt (world s2)\<rparr>
          in (case convertSubmodules lib api moduleLookup subs s3 of
                (Some e, s4) \<Rightarrow> (Some e, s4)
              | (None, s4) \<Rightarrow>
                  (case convertModule_parameters api module params s4 of
                     (Some e, s5) \<Rightarrow> (Some e, s5)
                   | (None, s5) \<Rightarrow>
                       convertModule_arena lib api module
                         (ModuleDef nm opt subs params arena) s5)))"
| "convertSubmodules lib api moduleLookup [] s = (None, s)"
| "convertSubmodules lib api moduleLookup (sub_def # rest) s =
     (case convertModule lib api moduleLookup sub_def
             (s\<lparr>moduleStack_m := moduleStack_m s @ [md_name sub_def]\<rparr>) of
        (Some e, s') \<Rightarrow> (Some e, s')
      | (None, s') \<Rightarrow>
          convertSubmodules lib api moduleLookup rest
            (s'\<lparr>moduleStack_m := butlast (moduleStack_m s')\<rparr>))"

subsection \<open>deserialize and the entry points\<close>

definition deserialize ::
  "libs \<Rightarrow> ('w, 'h) module_api \<Rightarrow> ('w, 'h) module_lookup \<Rightarrow> ('w, 'h) deserializer \<Rightarrow>
     error option \<times> ('w, 'h) deserializer" where
  "deserialize lib api module_lookup s =
     (let s1 = log EvGetLastRecord s in
      case getLastRecord (reader_m s) of
        Inl e \<Rightarrow> (Some e, s1)
      | Inr (data_ptr, data_size) \<Rightarrow>
          let json_string = take (unat data_size) data_ptr;
              s2 = log (EvJsonToBinaryString json_string) s1
          in (case JsonToBinaryString lib json_string of
                Inl msg \<Rightarrow> (Some (MetadataTranscodeError msg), s2)
              | Inr binary_string \<Rightarrow>
                  (case ParseFromString lib binary_string of
                     None \<Rightarrow> (Some InvalidProtobufOutput, s2)
                   | Some model \<Rightarrow>
                       (case loadTensorTable lib model s2 of
                          (Some e, s3) \<Rightarrow> (Some e, s3)
                        | (None, s3) \<Rightarrow>
                            convertModule lib api module_lookup (main_module model) s3))))"

text \<open>
  The two constructors. The one from a file name opens the file and hands the
  stream to the reader; it does not look at the stream's state. A file system is a
  partial map from paths to contents; a path that cannot be opened gives a stream
  with the fail bit set.
\<close>

definition ScriptModuleDeserializer_stream ::
  "libs \<Rightarrow> istream \<Rightarrow> 'w \<Rightarrow> error + ('w, 'h) deserializer" where
  "ScriptModuleDeserializer_stream lib is w =
     (case PyTorchStreamReader lib is of
        Inl e \<Rightarrow> Inl e
      | Inr r \<Rightarrow>
          Inr \<lparr>reader_m = r, moduleStack_m = [], tensor_table_m = [], storages = [],
               trace = [], world = w\<rparr>)"

definition ifstream :: "(string \<rightharpoonup> byte list) \<Rightarrow> string \<Rightarrow> istream" where
  "ifstream fs filename =
     (case fs filename of None \<Rightarrow> IStream True [] | Some bs \<Rightarrow> IStream False bs)"

definition ScriptModuleDeserializer_filename ::
  "libs \<Rightarrow> (string \<rightharpoonup> byte list) \<Rightarrow> string \<Rightarrow> 'w \<Rightarrow> error + ('w, 'h) deserializer" where
  "ScriptModuleDeserializer_filename lib fs filename w =
     ScriptModuleDeserializer_stream lib (ifstream fs filename) w"

text \<open>
  \<^verbatim>\<open>import_ir_module\<close> returns nothing; its effect is the world it leaves. The
  model returns the error, if any, and the final state, whose \<open>world\<close> is that world
  (the world is untouched when the constructor throws).
\<close>

definition import_ir_module_stream ::
  "libs \<Rightarrow> ('w, 'h) module_api \<Rightarrow> ('w, 'h) module_lookup \<Rightarrow> istream \<Rightarrow> 'w \<Rightarrow>
     error + (error option \<times> ('w, 'h) deserializer)" where
  "import_ir_module_stream lib api module_lookup is w =
     (case ScriptModuleDeserializer_stream lib is w of
        Inl e \<Rightarrow> Inl e
      | Inr deserializer \<Rightarrow> Inr (deserialize lib api module_lookup deserializer))"

definition import_ir_module_filename ::
  "libs \<Rightarrow> ('w, 'h) module_api \<Rightarrow> ('w, 'h) module_lookup \<Rightarrow> (string \<rightharpoonup> byte list) \<Rightarrow>
     string \<Rightarrow> 'w \<Rightarrow> error + (error option \<times> ('w, 'h) deserializer)" where
  "import_ir_module_filename lib api module_lookup fs filename w =
     (case ScriptModuleDeserializer_filename lib fs filename w of
        Inl e \<Rightarrow> Inl e
      | Inr deserializer \<Rightarrow> Inr (deserialize lib api module_lookup deserializer))"

subsection \<open>script::Module and load\<close>

text \<open>
  Modelled from the spec: \<^verbatim>\<open>script::Module\<close> (torch/csrc/jit/script/module.h) and
  \<^verbatim>\<open>import_methods\<close> (torch/csrc/jit/import_method.h) are not part of import.cpp.
  A module holds its optimize flag, its named submodules in registration order, its
  registered parameters (name, tensor, is_buffer) and the code blobs supplied to it.
  The code loader either rejects a blob or the module keeps it. In the tree that
  \<^verbatim>\<open>load\<close> builds from a fresh root every module is reached by one qualified
  name, so a handle (a shared pointer) is modelled by that name.
\<close>

datatype module = Module
  (optimized: bool)
  (modules: "(string \<times> module) list")
  (parameters: "(string \<times> tensor \<times> bool) list")
  (methods: "(byte list \<times> tensor list) list")

definition new_Module :: module where
  "new_Module = Module False [] [] []"

definition find_module :: "module \<Rightarrow> string \<Rightarrow> module option" where
  "find_module m name = map_of (modules m) name"

definition register_module :: "string \<Rightarrow> module \<Rightarrow> module \<Rightarrow> module" where
  "register_module name c m =
     Module (optimized m) (modules m @ [(name, c)]) (parameters m) (methods m)"

fun upd_child :: "string \<Rightarrow> ('a \<Rightarrow> 'a) \<Rightarrow> (string \<times> 'a) list \<Rightarrow> (string \<times> 'a) list" where
  "upd_child name f [] = []"
| "upd_child name f ((k, c) # ms) =
     (if k = name then (k, f c) # ms else (k, c) # upd_child name f ms)"

text \<open>\<open>at_module p f root\<close> mutates by \<open>f\<close> the module that the handle \<open>p\<close> points to.\<close>

fun at_module :: "string list \<Rightarrow> (module \<Rightarrow> module) \<Rightarrow> module \<Rightarrow> module" where
  "at_module [] f m = f m"
| "at_module (name # p) f m =
     Module (optimized m) (upd_child name (at_module p f) (modules m))
       (parameters m) (methods m)"

text \<open>
  The lambda \<^verbatim>\<open>module_lookup\<close> of \<^verbatim>\<open>load\<close>: it walks the qualified name
  from the root and registers a fresh module wherever a name is not found.
\<close>

fun load_walk :: "string list \<Rightarrow> module \<Rightarrow> module" where
  "load_walk [] cur = cur"
| "load_walk (name # p) cur =
     (let cur' = (if find_module cur name = None
                   then register_module name new_Module cur else cur)
      in at_module [name] (load_walk p) cur')"

definition load_module_lookup :: "(module, string list) module_lookup" where
  "load_module_lookup qualified_name root = (Inr qualified_name, load_walk qualified_name root)"

definition Module_set_optimized :: "bool \<Rightarrow> module \<Rightarrow> module" where
  "Module_set_optimized b m = Module b (modules m) (parameters m) (methods m)"

fun upd_parameter :: "string \<Rightarrow> tensor \<Rightarrow> bool \<Rightarrow> (string \<times> tensor \<times> bool) list \<Rightarrow>
    (string \<times> tensor \<times> bool) list" where
  "upd_parameter name v b [] = [(name, v, b)]"
| "upd_parameter name v b ((k, x) # ps) =
     (if k = name then (k, v, b) # ps else (k, x) # upd_parameter name v b ps)"

definition Module_register_parameter :: "string \<Rightarrow> tensor \<Rightarrow> bool \<Rightarrow> module \<Rightarrow> module" where
  "Module_register_parameter name v is_buffer m =
     Module (optimized m) (modules m) (upd_parameter name v is_buffer (parameters m)) (methods m)"

definition Module_add_methods :: "byte list \<Rightarrow> tensor list \<Rightarrow> module \<Rightarrow> module" where
  "Module_add_methods data tensor_table m =
     Module (optimized m) (modules m) (parameters m) (methods m @ [(data, tensor_table)])"

definition script_module_api ::
  "(byte list \<Rightarrow> tensor list \<Rightarrow> error option) \<Rightarrow> (module, string list) module_api" where
  "script_module_api loader =
     \<lparr>set_optimized = (\<lambda>h b. at_module h (Module_set_optimized b)),
      register_parameter =
        (\<lambda>h name v is_buffer root.
           Inr (at_module h (Module_register_parameter name v is_buffer) root)),
      import_methods =
        (\<lambda>h data tensor_table root.
           case loader data tensor_table of
             Some e \<Rightarrow> Inl e
           | None \<Rightarrow> Inr (at_module h (Module_add_methods data tensor_table) root))\<rparr>"

definition load_stream ::
  "libs \<Rightarrow> (byte list \<Rightarrow> tensor list \<Rightarrow> error option) \<Rightarrow> istream \<Rightarrow> error + module" where
  "load_stream lib loader is =
     (case ScriptModuleDeserializer_stream lib is new_Module of
        Inl e \<Rightarrow> Inl e
      | Inr deserializer \<Rightarrow>
          (case deserialize lib (script_module_api loader) load_module_lookup deserializer of
             (Some e, d) \<Rightarrow> Inl e
           | (None, d) \<Rightarrow> Inr (world d)))"

definition load_filename ::
  "libs \<Rightarrow> (byte list \<Rightarrow> tensor list \<Rightarrow> error option) \<Rightarrow> (string \<rightharpoonup> byte list) \<Rightarrow>
     string \<Rightarrow> error + module" where
  "load_filename lib loader fs filename =
     (let is = ifstream fs filename
      in if fail is then Inl ArchiveOpenError else load_stream lib loader is)"

subsection \<open>Observations on a run\<close>

text \<open>The key a storage reference carries, and the number of fetches of a key after the
  first \<open>n\<close> events of the trace.\<close>

definition key_of :: "libs \<Rightarrow> tensor_def \<Rightarrow> u64 option" where
  "key_of lib t = stoull lib (rr_key (td_data t))"

definition fetches :: "nat \<Rightarrow> ('w, 'h) deserializer \<Rightarrow> u64 \<Rightarrow> nat" where
  "fetches n s k = count_list (drop n (trace s)) (EvGetRecordWithKey k)"

text \<open>The descriptors of a module tree, parents before children, siblings in order.\<close>

fun all_modules :: "module_def \<Rightarrow> module_def list" where
  "all_modules (ModuleDef nm opt subs params arena) =
     ModuleDef nm opt subs params arena # concat (map all_modules subs)"

text \<open>The events a run has added to the trace of the state it started from.\<close>

definition new_events :: "('w, 'h) deserializer \<Rightarrow> ('w, 'h) deserializer \<Rightarrow> 'h event list" where
  "new_events s s' = drop (length (trace s)) (trace s')"

definition register_event :: "'h \<Rightarrow> tensor list \<Rightarrow> parameter_def \<Rightarrow> 'h event" where
  "register_event h tensor_table pd =
     EvRegisterParameter h (pd_name pd) (tensor_table ! unat (pd_tensor_id pd)) (pd_is_buffer pd)"

text \<open>
  The bytes of the code-arena record of a module, when the record is there and has the
  size the descriptor declares.
\<close>

definition arena_record :: "libs \<Rightarrow> reader \<Rightarrow> module_def \<Rightarrow> byte list option" where
  "arena_record lib rd m =
     (case stoull lib (rr_key (md_torchscript_arena m)) of
        None \<Rightarrow> None
      | Some k \<Rightarrow>
          (case getRecordWithKey rd k of
             Inl e \<Rightarrow> None
           | Inr (data, sz) \<Rightarrow>
               if sz = rr_size (md_torchscript_arena m) then Some (take (unat sz) data)
               else None))"

text \<open>
  \<open>handed_over\<close>: an event that hands a blob to the code loader hands the checked
  arena record of one of the descriptors \<open>ds\<close>, with the whole tensor table.
  \<open>run_frame\<close>: what every run of \<open>convertModule\<close> over the descriptors \<open>ds\<close> keeps:
  the table, the reader and the storages are untouched, the trace only grows, and
  every new event satisfies \<open>handed_over\<close>.
\<close>

definition handed_over ::
  "libs \<Rightarrow> reader \<Rightarrow> tensor list \<Rightarrow> module_def list \<Rightarrow> 'h event \<Rightarrow> bool" where
  "handed_over lib rd tt ds ev =
     (case ev of
        EvImportMethods h bytes tt' \<Rightarrow>
          tt' = tt \<and> list_ex (\<lambda>m. arena_record lib rd m = Some bytes) ds
      | _ \<Rightarrow> True)"

definition run_frame ::
  "libs \<Rightarrow> module_def list \<Rightarrow> ('w, 'h) deserializer \<Rightarrow> ('w, 'h) deserializer \<Rightarrow> bool" where
  "run_frame lib ds s s' =
     (tensor_table_m s' = tensor_table_m s \<and> reader_m s' = reader_m s \<and>
      storages s' = storages s \<and>
      trace s' = trace s @ new_events s s' \<and>
      list_all (handed_over lib (reader_m s) (tensor_table_m s) ds) (new_events s s'))"

text \<open>
  The transcoder's verdict on the metadata text: it is rejected when
  \<open>JsonToBinaryString\<close> reports a status that is not ok or when \<open>ParseFromString\<close>
  returns false on its output. \<open>rejection_error\<close> is the error \<open>deserialize\<close> raises
  for it.
\<close>

definition metadata_rejected :: "libs \<Rightarrow> byte list \<Rightarrow> bool" where
  "metadata_rejected lib json_string =
     (case JsonToBinaryString lib json_string of
        Inl msg \<Rightarrow> True
      | Inr binary_string \<Rightarrow> ParseFromString lib binary_string = None)"

definition rejection_error :: "libs \<Rightarrow> byte list \<Rightarrow> error" where
  "rejection_error lib json_string =
     (case JsonToBinaryString lib json_string of
        Inl msg \<Rightarrow> MetadataTranscodeError msg
      | Inr binary_string \<Rightarrow> InvalidProtobufOutput)"

text \<open>
  The trace a successful run is expected to leave, with the module handles erased
  (a handle is whatever the lookup callback returned). \<open>first_keys seen ks\<close> keeps of
  \<open>ks\<close> the first occurrence of every key not in \<open>seen\<close>: the keys fetched while the
  tensor table is built. \<open>build_events\<close> is the depth-first, pre-order walk of a
  descriptor tree from the qualified name \<open>p\<close>: the lookup of \<open>p\<close> and the optimize
  flag, then the submodules from left to right, each under \<open>p\<close> extended by its name,
  then the parameters in order, each with the tensor at its id, then the fetch of the
  arena record and its hand-over with the tensor table.
\<close>

definition erase :: "'h event \<Rightarrow> unit event" where
  "erase = map_event (\<lambda>h. ())"

fun first_keys :: "u64 list \<Rightarrow> u64 list \<Rightarrow> u64 list" where
  "first_keys seen [] = []"
| "first_keys seen (k # ks) =
     (if k \<in> set seen then first_keys seen ks else k # first_keys (k # seen) ks)"

fun build_events ::
  "libs \<Rightarrow> reader \<Rightarrow> tensor list \<Rightarrow> string list \<Rightarrow> module_def \<Rightarrow> unit event list" where
  "build_events lib rd tt p (ModuleDef nm opt subs params arena) =
     [EvModuleLookup p, EvSetOptimized () opt] @
     concat (map (\<lambda>sub. build_events lib rd tt (p @ [md_name sub]) sub) subs) @
     map (register_event () tt) params @
     (case stoull lib (rr_key arena) of
        None \<Rightarrow> []
      | Some k \<Rightarrow>
          EvGetRecordWithKey k #
          (case arena_record lib rd (ModuleDef nm opt subs params arena) of
             None \<Rightarrow> []
           | Some bytes \<Rightarrow> [EvImportMethods () bytes tt]))"

text \<open>
  The shape of a tree: the names of the children of every node, in order.
\<close>

datatype shape = Shape (children: "(string \<times> shape) list")

fun def_shape :: "module_def \<Rightarrow> shape" where
  "def_shape (ModuleDef nm opt subs params arena) =
     Shape (map (\<lambda>sub. (md_name sub, def_shape sub)) subs)"

fun module_shape :: "module \<Rightarrow> shape" where
  "module_shape (Module opt ms ps cs) = Shape (map (\<lambda>(name, c). (name, module_shape c)) ms)"

fun distinct_names :: "module_def \<Rightarrow> bool" where
  "distinct_names (ModuleDef nm opt subs params arena) =
     (distinct (map md_name subs) \<and> list_all distinct_names subs)"

text \<open>
  What a build does to the shape of the tree that \<^verbatim>\<open>load\<close> grows.
  \<open>grow_child name g\<close> applies \<open>g\<close> to the child \<open>name\<close> of a node, which is appended
  as an empty node first when the node has no such child; \<open>walk_then p g\<close> does so
  along the qualified name \<open>p\<close> and applies \<open>g\<close> to the node it reaches; \<open>grow d\<close> is
  the effect of the build of the descriptor \<open>d\<close> on the node of \<open>d\<close>.
\<close>

definition grow_child :: "string \<Rightarrow> (shape \<Rightarrow> shape) \<Rightarrow> shape \<Rightarrow> shape" where
  "grow_child name g sh =
     (if map_of (children sh) name = None
      then Shape (children sh @ [(name, g (Shape []))])
      else Shape (upd_child name g (children sh)))"

fun walk_then :: "string list \<Rightarrow> (shape \<Rightarrow> shape) \<Rightarrow> shape \<Rightarrow> shape" where
  "walk_then [] g sh = g sh"
| "walk_then (name # p) g sh = grow_child name (walk_then p g) sh"

fun grow :: "module_def \<Rightarrow> shape \<Rightarrow> shape"
and grow_subs :: "module_def list \<Rightarrow> shape \<Rightarrow> shape" where
  "grow (ModuleDef nm opt subs params arena) sh = grow_subs subs sh"
| "grow_subs [] sh = sh"
| "grow_subs (sub # rest) sh = grow_subs rest (grow_child (md_name sub) (grow sub) sh)"

text \<open>The events that are calls of the lookup callback.\<close>

definition is_module_lookup :: "'h event \<Rightarrow> bool" where
  "is_module_lookup ev = (case ev of EvModuleLookup p \<Rightarrow> True | _ \<Rightarrow> False)"

subsection \<open>Concrete archives\<close>

text \<open>
  An archive with two storage records (keys 7 and 8), two code arenas (keys 9 and 10)
  and a model of a root module with one submodule. The first two tensors share the
  storage record 7, whose 10 bytes are not a multiple of the item size 4.
\<close>

definition ex_reader :: reader where
  "ex_reader =
     \<lparr>getLastRecord = Inr ([123, 125], 2),
      getRecordWithKey = (\<lambda>k.
        if k = 7 then Inr ([1, 2, 3, 4, 5, 6, 7, 8, 9, 10], 10)
        else if k = 8 then Inr ([1, 2, 3, 4], 4)
        else if k = 9 then Inr ([99, 100, 101], 3)
        else if k = 10 then Inr ([102, 103], 2)
        else Inl ArchiveReadError)\<rparr>"

definition ex_tensors :: "tensor_def list" where
  "ex_tensors =
     [\<lparr>td_dims = [2], td_strides = [1], td_offset = 0, td_data_type = 1,
       td_requires_grad = True, td_data = \<lparr>rr_key = ''7'', rr_size = 10\<rparr>\<rparr>,
      \<lparr>td_dims = [1], td_strides = [1], td_offset = 1, td_data_type = 1,
       td_requires_grad = False, td_data = \<lparr>rr_key = ''7'', rr_size = 10\<rparr>\<rparr>,
      \<lparr>td_dims = [1], td_strides = [1], td_offset = 0, td_data_type = 1,
       td_requires_grad = False, td_data = \<lparr>rr_key = ''8'', rr_size = 4\<rparr>\<rparr>]"

definition ex_module :: module_def where
  "ex_module =
     ModuleDef ''main'' True
       [ModuleDef ''sub'' False []
          [\<lparr>pd_name = ''bias'', pd_tensor_id = 2, pd_is_buffer = False\<rparr>]
          \<lparr>rr_key = ''10'', rr_size = 2\<rparr>]
       [\<lparr>pd_name = ''weight'', pd_tensor_id = 0, pd_is_buffer = False\<rparr>,
        \<lparr>pd_name = ''running_mean'', pd_tensor_id = 1, pd_is_buffer = True\<rparr>]
       \<lparr>rr_key = ''9'', rr_size = 3\<rparr>"

definition ex_model :: model_def where
  "ex_model = \<lparr>main_module = ex_module, tensors = ex_tensors\<rparr>"

definition ex_lib :: libs where
  "ex_lib =
     \<lparr>PyTorchStreamReader = (\<lambda>is. if fail is then Inl ArchiveReadError else Inr ex_reader),
      JsonToBinaryString = (\<lambda>js. if js = [123, 125] then Inr [8] else Inl ''parse error''),
      ParseFromString = (\<lambda>bs. if bs = [8] then Some ex_model else None),
      stoull = (\<lambda>str. if str = ''7'' then Some 7 else if str = ''8'' then Some 8
                 else if str = ''9'' then Some 9 else if str = ''10'' then Some 10 else None),
      itemsize = (\<lambda>dt. if dt = 1 then Some 4 else None)\<rparr>"

definition ex_deserializer :: "(module, string list) deserializer" where
  "ex_deserializer =
     \<lparr>reader_m = ex_reader, moduleStack_m = [], tensor_table_m = [], storages = [],
      trace = [], world = new_Module\<rparr>"

definition ex_loader :: "byte list \<Rightarrow> tensor list \<Rightarrow> error option" where
  "ex_loader data tensor_table = None"

text \<open>
  Two more models for the same archive: in the first, a second reference to key 7
  declares a size the record does not have; in the second, the first reference to
  key 7 does.
\<close>

definition mismatch_model :: model_def where
  "mismatch_model =
     \<lparr>main_module = ModuleDef ''main'' False [] [] \<lparr>rr_key = ''9'', rr_size = 3\<rparr>,
      tensors =
        [\<lparr>td_dims = [2], td_strides = [1], td_offset = 0, td_data_type = 1,
          td_requires_grad = False, td_data = \<lparr>rr_key = ''7'', rr_size = 10\<rparr>\<rparr>,
         \<lparr>td_dims = [2], td_strides = [1], td_offset = 0, td_data_type = 1,
          td_requires_grad = False, td_data = \<lparr>rr_key = ''7'', rr_size = 99\<rparr>\<rparr>]\<rparr>"

definition mismatch_lib :: libs where
  "mismatch_lib = ex_lib\<lparr>ParseFromString := (\<lambda>bs. Some mismatch_model)\<rparr>"

definition mismatch_first_model :: model_def where
  "mismatch_first_model =
     \<lparr>main_module = ModuleDef ''main'' False [] [] \<lparr>rr_key = ''9'', rr_size = 3\<rparr>,
      tensors =
        [\<lparr>td_dims = [1], td_strides = [1], td_offset = 0, td_data_type = 1,
          td_requires_grad = False, td_data = \<lparr>rr_key = ''8'', rr_size = 4\<rparr>\<rparr>,
         \<lparr>td_dims = [2], td_strides = [1], td_offset = 0, td_data_type = 1,
          td_requires_grad = False, td_data = \<lparr>rr_key = ''7'', rr_size = 99\<rparr>\<rparr>]\<rparr>"

definition mismatch_first_lib :: libs where
  "mismatch_first_lib = ex_lib\<lparr>ParseFromString := (\<lambda>bs. Some mismatch_first_model)\<rparr>"

text \<open>
  The state of the concrete archive once its tensor table is loaded, a parameter
  whose tensor id is not in the table, and a module whose arena declares 100 bytes
  where the record has 3.
\<close>

definition ex_loaded :: "(module, string list) deserializer" where
  "ex_loaded = snd (loadTensorTable ex_lib ex_model ex_deserializer)"

definition ex_bad_parameter :: parameter_def where
  "ex_bad_parameter = \<lparr>pd_name = ''bias'', pd_tensor_id = 3, pd_is_buffer = False\<rparr>"

definition ex_bad_arena_module :: module_def where
  "ex_bad_arena_module = ModuleDef ''main'' False [] [] \<lparr>rr_key = ''9'', rr_size = 100\<rparr>"

text \<open>A model whose main module has two submodules of the same name.\<close>

definition twins_model :: model_def where
  "twins_model =
     \<lparr>main_module =
        ModuleDef ''main'' False
          [ModuleDef ''a'' False [] [] \<lparr>rr_key = ''10'', rr_size = 2\<rparr>,
           ModuleDef ''a'' False [] [] \<lparr>rr_key = ''10'', rr_size = 2\<rparr>]
          [] \<lparr>rr_key = ''9'', rr_size = 3\<rparr>,
      tensors = []\<rparr>"

definition twins_lib :: libs where
  "twins_lib = ex_lib\<lparr>ParseFromString := (\<lambda>bs. Some twins_model)\<rparr>"

text \<open>
  A model for the same archive whose main module takes its code arena from key 7,
  the key of the storage record of its two tensors.
\<close>

definition arena_key_model :: model_def where
  "arena_key_model =
     \<lparr>main_module = ModuleDef ''main'' False [] [] \<lparr>rr_key = ''7'', rr_size = 10\<rparr>,
      tensors =
        [\<lparr>td_dims = [2], td_strides = [1], td_offset = 0, td_data_type = 1,
          td_requires_grad = False, td_data = \<lparr>rr_key = ''7'', rr_size = 10\<rparr>\<rparr>,
         \<lparr>td_dims = [1], td_strides = [1], td_offset = 1, td_data_type = 1,
          td_requires_grad = False, td_data = \<lparr>rr_key = ''7'', rr_size = 10\<rparr>\<rparr>]\<rparr>"

definition arena_key_lib :: libs where
  "arena_key_lib = ex_lib\<lparr>ParseFromString := (\<lambda>bs. Some arena_key_model)\<rparr>"

section \<open>Properties\<close>

subsection \<open>Basic facts\<close>

lemmas ex_defs = ex_model_def ex_tensors_def ex_lib_def ex_deserializer_def ex_reader_def
  ex_module_def

lemma log_simps [simp]:
  "trace (log e s) = trace s @ [e]" "world (log e s) = world s"
  "storages (log e s) = storages s" "tensor_table_m (log e s) = tensor_table_m s"
  "moduleStack_m (log e s) = moduleStack_m s" "reader_m (log e s) = reader_m s"
  by (simp_all add: log_def)

subsection \<open>loadTensor\<close>

lemma loadTensor_Inr:
  assumes "loadTensor lib t m s = (Inr v, m', s')"
  shows "\<exists>k. key_of lib t = Some k \<and> m' k = Some (t_storage v) \<and>
     v = th_tensor (t_storage v) t \<and>
     tensor_table_m s' = tensor_table_m s \<and> world s' = world s \<and>
     moduleStack_m s' = moduleStack_m s \<and> reader_m s' = reader_m s \<and>
     (case m k of
        Some a \<Rightarrow> m' = m \<and> s' = s
      | None \<Rightarrow> m' = m(k \<mapsto> length (storages s)) \<and>
          trace s' = trace s @ [EvGetRecordWithKey k] \<and>
          (\<exists>st. storages s' = storages s @ [st]))"
  using assms
  by (auto simp: loadTensor_def key_of_def th_tensor_def Let_def
      split: option.splits sum.splits prod.splits if_splits)

lemma loadTensor_Inl:
  assumes "loadTensor lib t m s = (Inl e, m', s')"
  shows "m' = m \<and> tensor_table_m s' = tensor_table_m s \<and> world s' = world s \<and>
     storages s' = storages s \<and> moduleStack_m s' = moduleStack_m s \<and> reader_m s' = reader_m s \<and>
     (trace s' = trace s \<or>
      (\<exists>k. key_of lib t = Some k \<and> m k = None \<and> trace s' = trace s @ [EvGetRecordWithKey k]))"
  using assms
  by (auto simp: loadTensor_def key_of_def Let_def
      split: option.splits sum.splits prod.splits if_splits)

lemma loadTensors_inv:
  assumes "loadTensors lib ts m s = (r, m', s')"
    and "n \<le> length (trace s)"
    and "\<forall>k. fetches n s k = (if k \<in> dom m then 1 else 0)"
    and "\<forall>k a. m k = Some a \<longrightarrow> a < length (storages s)"
  shows "\<exists>vs. tensor_table_m s' = tensor_table_m s @ vs \<and> length vs \<le> length ts \<and>
      (r = None \<longrightarrow> length vs = length ts) \<and>
      (\<forall>i<length vs. \<exists>k. key_of lib (ts ! i) = Some k \<and> m' k = Some (t_storage (vs ! i))) \<and>
      m \<subseteq>\<^sub>m m' \<and>
      (\<forall>k. fetches n s' k \<le> 1) \<and> (\<forall>k\<in>dom m'. fetches n s' k = 1) \<and>
      (\<forall>k a. m' k = Some a \<longrightarrow> a < length (storages s'))"
  using assms
proof (induction ts arbitrary: m s)
  case Nil
  then show ?case by (auto simp: map_le_def)
next
  case (Cons t ts)
  obtain x m1 s1 where lt: "loadTensor lib t m s = (x, m1, s1)"
    by (metis prod_cases3)
  show ?case
  proof (cases x)
    case (Inl e)
    from lt Inl have st: "loadTensor lib t m s = (Inl e, m1, s1)" by simp
    from Cons.prems(1) st have res: "r = Some e" "m' = m1" "s' = s1" by simp_all
    note f = loadTensor_Inl [OF st]
    from f have tr: "trace s1 = trace s \<or>
      (\<exists>k. key_of lib t = Some k \<and> m k = None \<and> trace s1 = trace s @ [EvGetRecordWithKey k])"
      by blast
    have cnt: "\<forall>k. fetches n s1 k \<le> 1" "\<forall>k\<in>dom m. fetches n s1 k = 1"
      using tr Cons.prems(2,3) by (auto simp: fetches_def dom_def)
    show ?thesis
      apply (rule exI [of _ "[]"])
      using f cnt res Cons.prems(4) by (simp add: map_le_def)
  next
    case (Inr v)
    from lt Inr have st: "loadTensor lib t m s = (Inr v, m1, s1)" by simp
    let ?s2 = "s1\<lparr>tensor_table_m := tensor_table_m s1 @ [v]\<rparr>"
    from Cons.prems(1) st have rec: "loadTensors lib ts m1 ?s2 = (r, m', s')" by simp
    from loadTensor_Inr [OF st] obtain k where k: "key_of lib t = Some k"
      "m1 k = Some (t_storage v)" "tensor_table_m s1 = tensor_table_m s"
      and c: "case m k of Some a \<Rightarrow> m1 = m \<and> s1 = s
        | None \<Rightarrow> m1 = m(k \<mapsto> length (storages s)) \<and>
          trace s1 = trace s @ [EvGetRecordWithKey k] \<and>
          (\<exists>st. storages s1 = storages s @ [st])"
      by blast
    have le: "m \<subseteq>\<^sub>m m1" using c by (auto simp: map_le_def split: option.splits)
    have n2: "n \<le> length (trace ?s2)" using c Cons.prems(2) by (auto split: option.splits)
    have inv2: "\<forall>k'. fetches n ?s2 k' = (if k' \<in> dom m1 then 1 else 0)"
      using c Cons.prems(2,3) by (auto simp: fetches_def dom_def split: option.splits)
    have val2: "\<forall>k a. m1 k = Some a \<longrightarrow> a < length (storages ?s2)"
      using c Cons.prems(4) by (fastforce split: option.splits if_splits)
    from Cons.IH [OF rec n2 inv2 val2] obtain vs where vs:
      "tensor_table_m s' = tensor_table_m ?s2 @ vs" "length vs \<le> length ts"
      "r = None \<longrightarrow> length vs = length ts"
      "\<forall>i<length vs. \<exists>k. key_of lib (ts ! i) = Some k \<and> m' k = Some (t_storage (vs ! i))"
      "m1 \<subseteq>\<^sub>m m'" "\<forall>k. fetches n s' k \<le> 1" "\<forall>k\<in>dom m'. fetches n s' k = 1"
      "\<forall>k a. m' k = Some a \<longrightarrow> a < length (storages s')"
      by blast
    have mk: "m' k = Some (t_storage v)"
      using vs(5) k(2) by (auto simp: map_le_def dom_def)
    have idx: "\<forall>i<length (v # vs). \<exists>k. key_of lib ((t # ts) ! i) = Some k \<and>
        m' k = Some (t_storage ((v # vs) ! i))"
    proof (intro allI impI)
      fix i assume "i < length (v # vs)"
      then show "\<exists>k. key_of lib ((t # ts) ! i) = Some k \<and> m' k = Some (t_storage ((v # vs) ! i))"
        using vs(4) k(1) mk by (cases i) auto
    qed
    show ?thesis
      apply (rule exI [of _ "v # vs"])
      using vs k(3) idx le map_le_trans [OF le vs(5)] by simp
  qed
qed

lemma loadTensorTable_shares:
  assumes "loadTensorTable lib model s = (r, s')"
    and "tensor_table_m s = []"
    and "i < length (tensor_table_m s')" and "j < length (tensor_table_m s')"
    and "key_of lib (tensors model ! i) = Some k"
    and "key_of lib (tensors model ! j) = Some k"
  shows "t_storage (tensor_table_m s' ! i) = t_storage (tensor_table_m s' ! j) \<and>
    t_storage (tensor_table_m s' ! i) < length (storages s') \<and>
    fetches (length (trace s)) s' k = 1"
proof -
  obtain m' where run: "loadTensors lib (tensors model) Map.empty s = (r, m', s')"
    using assms(1) by (auto simp: loadTensorTable_def split: prod.splits)
  have "\<forall>k. fetches (length (trace s)) s k = (if k \<in> dom (Map.empty :: u64 \<rightharpoonup> nat) then 1 else 0)"
    by (simp add: fetches_def)
  from loadTensors_inv [OF run le_refl this] assms(2)
  have tab: "\<forall>i<length (tensor_table_m s'). \<exists>k. key_of lib (tensors model ! i) = Some k \<and>
        m' k = Some (t_storage (tensor_table_m s' ! i))"
    and cnt: "\<forall>k\<in>dom m'. fetches (length (trace s)) s' k = 1"
    and val: "\<forall>k a. m' k = Some a \<longrightarrow> a < length (storages s')"
    by auto
  from tab assms(3,5) have i: "m' k = Some (t_storage (tensor_table_m s' ! i))" by fastforce
  from tab assms(4,6) have j: "m' k = Some (t_storage (tensor_table_m s' ! j))" by fastforce
  from i j val cnt show ?thesis by (auto simp: dom_def)
qed

text \<open>
  C10. When a record is first materialized (its key is not yet in the map) and its
  size is the declared one, the new storage object gets the element count
  \<open>record_size div itemsize\<close>, the floor of the quotient of the unsigned values; the
  call succeeds whatever the remainder is.
\<close>

theorem loadTensor_numel_floor:
  assumes "itemsize lib (td_data_type t) = Some isz"
    and "key_of lib t = Some k"
    and "m k = None"
    and "getRecordWithKey (reader_m s) k = Inr (bytes, rr_size (td_data t))"
  shows "loadTensor lib t m s =
      (Inr (th_tensor (length (storages s)) t), m(k \<mapsto> length (storages s)),
       (log (EvGetRecordWithKey k) s)
         \<lparr>storages := storages s @
            [\<lparr>st_data_type = td_data_type t, st_data_ptr = bytes,
              st_numel = rr_size (td_data t) div isz\<rparr>]\<rparr>) \<and>
    unat (rr_size (td_data t) div isz) = unat (rr_size (td_data t)) div unat isz"
  using assms by (simp add: loadTensor_def key_of_def Let_def unat_div)

theorem loadTensor_numel_floor_witness:
  "st_numel (last (storages (snd (snd (loadTensor ex_lib (ex_tensors ! 0) Map.empty ex_deserializer))))) = 2 \<and>
   unat (10 div 4 :: u64) = 10 div 4 \<and> (10 :: nat) mod 4 = 2"
  using loadTensor_numel_floor [of ex_lib "ex_tensors ! 0" 4 7 Map.empty ex_deserializer
      "[1, 2, 3, 4, 5, 6, 7, 8, 9, 10]"]
  by (simp add: ex_defs key_of_def)

lemma loadTensors_frame:
  "loadTensors lib ts m s = (r, m', s') \<Longrightarrow>
     world s' = world s \<and> moduleStack_m s' = moduleStack_m s \<and> reader_m s' = reader_m s"
proof (induction ts arbitrary: m s)
  case Nil
  then show ?case by simp
next
  case (Cons t ts)
  obtain x m1 s1 where lt: "loadTensor lib t m s = (x, m1, s1)"
    by (metis prod_cases3)
  show ?case
  proof (cases x)
    case (Inl e)
    with lt Cons.prems loadTensor_Inl [of lib t m s e m1 s1] show ?thesis by simp
  next
    case (Inr v)
    with lt Cons.prems have "loadTensors lib ts m1 (s1\<lparr>tensor_table_m := tensor_table_m s1 @ [v]\<rparr>) = (r, m', s')"
      by simp
    from Cons.IH [OF this] loadTensor_Inr [of lib t m s v m1 s1] lt Inr show ?thesis by auto
  qed
qed

lemma loadTensors_first_mismatch:
  assumes "loadTensors lib ts m s = (r, m', s')"
    and "i < length ts"
    and "itemsize lib (td_data_type (ts ! i)) = Some isz"
    and "key_of lib (ts ! i) = Some k"
    and "m k = None"
    and "\<forall>j<i. key_of lib (ts ! j) \<noteq> Some k"
    and "getRecordWithKey (reader_m s) k = Inr (bytes, fsz)"
    and "fsz \<noteq> rr_size (td_data (ts ! i))"
  shows "r \<noteq> None \<and> length (tensor_table_m s') \<le> length (tensor_table_m s) + i \<and>
    (length (tensor_table_m s') = length (tensor_table_m s) + i \<longrightarrow>
       r = Some StorageSizeMismatchError)"
  using assms
proof (induction ts arbitrary: i m s)
  case Nil
  then show ?case by simp
next
  case (Cons t ts)
  show ?case
  proof (cases i)
    case 0
    with Cons.prems have "loadTensor lib t m s =
        (Inl StorageSizeMismatchError, m, log (EvGetRecordWithKey k) s)"
      by (simp add: loadTensor_def key_of_def Let_def)
    with Cons.prems(1) 0 show ?thesis by auto
  next
    case (Suc i')
    obtain x m1 s1 where lt: "loadTensor lib t m s = (x, m1, s1)"
      by (metis prod_cases3)
    show ?thesis
    proof (cases x)
      case (Inl e)
      with lt Cons.prems(1) loadTensor_Inl [of lib t m s e m1 s1] Suc show ?thesis by auto
    next
      case (Inr v)
      let ?s2 = "s1\<lparr>tensor_table_m := tensor_table_m s1 @ [v]\<rparr>"
      from lt Inr Cons.prems(1) have rec: "loadTensors lib ts m1 ?s2 = (r, m', s')" by simp
      from loadTensor_Inr [of lib t m s v m1 s1] lt Inr obtain k0 where k0:
        "key_of lib t = Some k0" "tensor_table_m s1 = tensor_table_m s" "reader_m s1 = reader_m s"
        "case m k0 of Some a \<Rightarrow> m1 = m \<and> s1 = s
          | None \<Rightarrow> m1 = m(k0 \<mapsto> length (storages s)) \<and>
              trace s1 = trace s @ [EvGetRecordWithKey k0] \<and>
              (\<exists>st. storages s1 = storages s @ [st])"
        by auto
      from Cons.prems(6) Suc k0(1) have ne: "k0 \<noteq> k" by fastforce
      have m1: "m1 k = None" using k0(4) ne Cons.prems(5) by (auto split: option.splits)
      have later: "\<forall>j<i'. key_of lib (ts ! j) \<noteq> Some k"
        using Cons.prems(6) Suc by fastforce
      have "r \<noteq> None \<and> length (tensor_table_m s') \<le> length (tensor_table_m ?s2) + i' \<and>
        (length (tensor_table_m s') = length (tensor_table_m ?s2) + i' \<longrightarrow>
           r = Some StorageSizeMismatchError)"
        using Cons.prems(2,3,4,7,8) Suc k0(3)
        by (intro Cons.IH [OF rec _ _ _ m1 later]) simp_all
      with k0(2) Suc show ?thesis by simp
    qed
  qed
qed

text \<open>
  C2, as the code has it. The size check belongs to the fetch: it is made on the
  reference that causes a record to be fetched, the first in the tensor list that
  carries its key. When the size fetched for such a reference differs from the size
  it declares, \<open>deserialize\<close> fails at or before that descriptor, no module has been
  looked up or changed, and the error is the size mismatch whenever all earlier
  descriptors were materialized.
\<close>

theorem deserialize_storage_size_mismatch:
  assumes "deserialize lib api module_lookup s = (r, s')"
    and "tensor_table_m s = []"
    and "getLastRecord (reader_m s) = Inr (data_ptr, data_size)"
    and "JsonToBinaryString lib (take (unat data_size) data_ptr) = Inr binary_string"
    and "ParseFromString lib binary_string = Some model"
    and "i < length (tensors model)"
    and "itemsize lib (td_data_type (tensors model ! i)) = Some isz"
    and "key_of lib (tensors model ! i) = Some k"
    and "\<forall>j<i. key_of lib (tensors model ! j) \<noteq> Some k"
    and "getRecordWithKey (reader_m s) k = Inr (bytes, fetched_size)"
    and "fetched_size \<noteq> rr_size (td_data (tensors model ! i))"
  shows "r \<noteq> None \<and> world s' = world s \<and> length (tensor_table_m s') \<le> i \<and>
    (length (tensor_table_m s') = i \<longrightarrow> r = Some StorageSizeMismatchError)"
proof -
  let ?s2 = "log (EvJsonToBinaryString (take (unat data_size) data_ptr)) (log EvGetLastRecord s)"
  obtain r1 m1 s1 where run: "loadTensors lib (tensors model) Map.empty ?s2 = (r1, m1, s1)"
    by (metis prod_cases3)
  have rd: "getRecordWithKey (reader_m ?s2) k = Inr (bytes, fetched_size)"
    using assms(10) by simp
  from loadTensors_first_mismatch [OF run assms(6,7,8) _ assms(9) rd assms(11)] assms(2)
  have f: "r1 \<noteq> None" "length (tensor_table_m s1) \<le> i"
    "length (tensor_table_m s1) = i \<longrightarrow> r1 = Some StorageSizeMismatchError"
    by simp_all
  from f(1) obtain e where e: "r1 = Some e" by auto
  have "deserialize lib api module_lookup s = (r1, s1)"
    using assms(3,4,5) run e by (simp add: deserialize_def loadTensorTable_def Let_def)
  with assms(1) have "r = r1" "s' = s1" by simp_all
  with f loadTensors_frame [OF run] show ?thesis by simp
qed

theorem deserialize_storage_size_mismatch_witness:
  "fst (deserialize mismatch_first_lib (script_module_api ex_loader) load_module_lookup
          ex_deserializer) = Some StorageSizeMismatchError \<and>
   world (snd (deserialize mismatch_first_lib (script_module_api ex_loader) load_module_lookup
          ex_deserializer)) = new_Module \<and>
   length (tensor_table_m (snd (deserialize mismatch_first_lib (script_module_api ex_loader)
          load_module_lookup ex_deserializer))) = 1"
  using deserialize_storage_size_mismatch [of mismatch_first_lib "script_module_api ex_loader"
      load_module_lookup ex_deserializer
      "fst (deserialize mismatch_first_lib (script_module_api ex_loader) load_module_lookup
          ex_deserializer)"
      "snd (deserialize mismatch_first_lib (script_module_api ex_loader) load_module_lookup
          ex_deserializer)"
      "[123, 125]" 2 "[8]" mismatch_first_model 1 4 7 "[1, 2, 3, 4, 5, 6, 7, 8, 9, 10]" 10]
  by (simp add: deserialize_def loadTensorTable_def loadTensor_def ex_defs log_def
      th_tensor_def Let_def key_of_def mismatch_first_lib_def mismatch_first_model_def)

text \<open>
  The claim as stated fails on a second reference to a key: the record fetched for
  key 7 has 10 bytes, the second descriptor declares 99, and \<open>deserialize\<close> succeeds.
\<close>

theorem storage_size_mismatch_counterexample:
  "key_of mismatch_lib (tensors mismatch_model ! 1) = Some 7 \<and>
   getRecordWithKey ex_reader 7 = Inr ([1, 2, 3, 4, 5, 6, 7, 8, 9, 10], 10) \<and>
   rr_size (td_data (tensors mismatch_model ! 1)) = 99 \<and>
   fst (deserialize mismatch_lib (script_module_api ex_loader) load_module_lookup
          ex_deserializer) = None \<and>
   length (tensor_table_m (snd (deserialize mismatch_lib (script_module_api ex_loader)
          load_module_lookup ex_deserializer))) = 2"
  by (simp add: deserialize_def loadTensorTable_def loadTensor_def ex_defs log_def
      th_tensor_def Let_def key_of_def mismatch_lib_def mismatch_model_def
      convertModule_arena_def load_module_lookup_def script_module_api_def ex_loader_def)

subsection \<open>convertModule: the parameter loop and the code arena\<close>

lemma convertModule_parameters_frame:
  "convertModule_parameters api h ps s = (r, s') \<Longrightarrow>
     tensor_table_m s' = tensor_table_m s \<and> reader_m s' = reader_m s \<and>
     storages s' = storages s \<and> moduleStack_m s' = moduleStack_m s \<and>
     (\<exists>n\<le>length ps. trace s' = trace s @ map (register_event h (tensor_table_m s)) (take n ps) \<and>
        (r = None \<longrightarrow> n = length ps) \<and>
        (\<forall>j<n. unat (pd_tensor_id (ps ! j)) < length (tensor_table_m s)))"
proof (induction ps arbitrary: s)
  case Nil
  then show ?case by simp
next
  case (Cons pd ps)
  show ?case
  proof (cases "unat (pd_tensor_id pd) < length (tensor_table_m s)")
    case False
    with Cons.prems show ?thesis by auto
  next
    case True
    let ?s1 = "log (register_event h (tensor_table_m s) pd) s"
    show ?thesis
    proof (cases "register_parameter api h (pd_name pd)
        (tensor_table_m s ! unat (pd_tensor_id pd)) (pd_is_buffer pd) (world s)")
      case (Inl e)
      with True Cons.prems have "r = Some e" "s' = ?s1"
        by (simp_all add: Let_def register_event_def)
      then show ?thesis using True
        by (auto intro!: exI [of _ "Suc 0"])
    next
      case (Inr w)
      with True Cons.prems have rec: "convertModule_parameters api h ps (?s1\<lparr>world := w\<rparr>) = (r, s')"
        by (simp add: Let_def register_event_def)
      from Cons.IH [OF rec] obtain n where n: "n \<le> length ps"
        "trace s' = trace s @ register_event h (tensor_table_m s) pd #
           map (register_event h (tensor_table_m s)) (take n ps)"
        "r = None \<longrightarrow> n = length ps"
        "\<forall>j<n. unat (pd_tensor_id (ps ! j)) < length (tensor_table_m s)"
        and fr: "tensor_table_m s' = tensor_table_m s" "reader_m s' = reader_m s"
        "storages s' = storages s" "moduleStack_m s' = moduleStack_m s"
        by auto
      have "\<forall>j<Suc n. unat (pd_tensor_id ((pd # ps) ! j)) < length (tensor_table_m s)"
        using n(4) True by (auto simp: less_Suc_eq_0_disj)
      with n fr show ?thesis
        by (intro conjI exI [of _ "Suc n"]) simp_all
    qed
  qed
qed

lemma convertModule_parameters_append:
  "convertModule_parameters api h (xs @ ys) s =
     (case convertModule_parameters api h xs s of
        (None, s1) \<Rightarrow> convertModule_parameters api h ys s1
      | (Some e, s1) \<Rightarrow> (Some e, s1))"
  by (induction xs arbitrary: s) (auto simp: Let_def split: sum.splits)

text \<open>
  C5. When the loop over the parameters reaches a descriptor (the loop over the
  earlier descriptors \<open>pre\<close> has completed, in state \<open>s1\<close>): if its tensor id is not
  an index of the tensor table, the run fails with \<open>InvalidTensorIdError\<close> in state
  \<open>s1\<close>, so nothing is registered for it; otherwise \<open>register_parameter\<close> is called on
  the module with the declared name, the tensor at that index and the declared
  \<open>is_buffer\<close>, and the loop goes on from its result.
\<close>

theorem convertModule_parameters_tensor_id:
  assumes "convertModule_parameters api h pre s = (None, s1)"
  shows "convertModule_parameters api h (pre @ pd # post) s =
     (if unat (pd_tensor_id pd) < length (tensor_table_m s)
      then
        (case register_parameter api h (pd_name pd)
                (tensor_table_m s ! unat (pd_tensor_id pd)) (pd_is_buffer pd) (world s1) of
           Inl e \<Rightarrow> (Some e, log (register_event h (tensor_table_m s) pd) s1)
         | Inr w \<Rightarrow>
             convertModule_parameters api h post
               ((log (register_event h (tensor_table_m s) pd) s1)\<lparr>world := w\<rparr>))
      else (Some InvalidTensorIdError, s1))"
proof -
  from convertModule_parameters_frame [OF assms]
  have "tensor_table_m s1 = tensor_table_m s" by simp
  with assms show ?thesis
    by (simp add: convertModule_parameters_append Let_def register_event_def
        split: sum.splits)
qed


lemma ex_loaded_eq:
  "ex_loaded =
     \<lparr>reader_m = ex_reader, moduleStack_m = [],
      tensor_table_m =
        [th_tensor 0 (ex_tensors ! 0), th_tensor 0 (ex_tensors ! 1), th_tensor 1 (ex_tensors ! 2)],
      storages =
        [\<lparr>st_data_type = 1, st_data_ptr = [1, 2, 3, 4, 5, 6, 7, 8, 9, 10], st_numel = 2\<rparr>,
         \<lparr>st_data_type = 1, st_data_ptr = [1, 2, 3, 4], st_numel = 1\<rparr>],
      trace = [EvGetRecordWithKey 7, EvGetRecordWithKey 8],
      world = new_Module\<rparr>"
  by (simp add: ex_loaded_def loadTensorTable_def loadTensor_def ex_defs log_def Let_def)

theorem convertModule_parameters_tensor_id_witness:
  "fst (convertModule_parameters (script_module_api ex_loader) []
          (take 1 (md_parameters ex_module) @ ex_bad_parameter # drop 1 (md_parameters ex_module))
          ex_loaded) = Some InvalidTensorIdError \<and>
   map fst (parameters (world (snd (convertModule_parameters (script_module_api ex_loader) []
          (take 1 (md_parameters ex_module) @ ex_bad_parameter # drop 1 (md_parameters ex_module))
          ex_loaded)))) = [''weight''] \<and>
   parameters (world (snd (convertModule_parameters (script_module_api ex_loader) []
          (take 1 (md_parameters ex_module) @ (md_parameters ex_module ! 1) # [])
          ex_loaded))) =
     [(''weight'', th_tensor 0 (ex_tensors ! 0), False),
      (''running_mean'', th_tensor 0 (ex_tensors ! 1), True)]"
  using convertModule_parameters_tensor_id [of "script_module_api ex_loader" "[]"
      "take 1 (md_parameters ex_module)" ex_loaded
      "snd (convertModule_parameters (script_module_api ex_loader) []
          (take 1 (md_parameters ex_module)) ex_loaded)" ex_bad_parameter
      "drop 1 (md_parameters ex_module)"]
    convertModule_parameters_tensor_id [of "script_module_api ex_loader" "[]"
      "take 1 (md_parameters ex_module)" ex_loaded
      "snd (convertModule_parameters (script_module_api ex_loader) []
          (take 1 (md_parameters ex_module)) ex_loaded)" "md_parameters ex_module ! 1" "[]"]
  by (simp add: ex_loaded_eq ex_module_def ex_bad_parameter_def script_module_api_def
      new_Module_def Module_register_parameter_def register_event_def log_def Let_def)

lemma convertModule_arena_cases:
  assumes "convertModule_arena lib api h m s = (r, s')"
  shows "tensor_table_m s' = tensor_table_m s \<and> reader_m s' = reader_m s \<and>
     storages s' = storages s \<and> moduleStack_m s' = moduleStack_m s \<and>
     ((r \<noteq> None \<and> trace s' = trace s) \<or>
      (\<exists>k. stoull lib (rr_key (md_torchscript_arena m)) = Some k \<and>
         ((r \<noteq> None \<and> trace s' = trace s @ [EvGetRecordWithKey k]) \<or>
          (\<exists>bytes. arena_record lib (reader_m s) m = Some bytes \<and>
             trace s' = trace s @ [EvGetRecordWithKey k,
               EvImportMethods h bytes (tensor_table_m s)]))))"
  using assms
  by (auto simp: convertModule_arena_def arena_record_def Let_def
      split: option.splits sum.splits prod.splits if_splits)


lemma run_frameI:
  assumes "tensor_table_m s' = tensor_table_m s" "reader_m s' = reader_m s"
    "storages s' = storages s" "trace s' = trace s @ evs"
    "list_all (handed_over lib (reader_m s) (tensor_table_m s) ds) evs"
  shows "run_frame lib ds s s'"
  using assms by (simp add: run_frame_def new_events_def)

lemma handed_over_mono:
  "set ds \<subseteq> set ds' \<Longrightarrow> handed_over lib rd tt ds ev \<Longrightarrow> handed_over lib rd tt ds' ev"
  by (auto simp: handed_over_def list_ex_iff split: event.splits)

lemma run_frame_seq:
  assumes "run_frame lib ds1 s s1"
    and "run_frame lib ds2 s1' s2"
    and "tensor_table_m s1' = tensor_table_m s1" "reader_m s1' = reader_m s1"
      "storages s1' = storages s1" "trace s1' = trace s1"
    and "set ds1 \<subseteq> set ds" "set ds2 \<subseteq> set ds"
  shows "run_frame lib ds s s2"
proof (rule run_frameI [where evs = "new_events s s1 @ new_events s1' s2"])
  show "list_all (handed_over lib (reader_m s) (tensor_table_m s) ds)
      (new_events s s1 @ new_events s1' s2)"
    using assms by (auto simp: run_frame_def list_all_iff intro: handed_over_mono)
qed (use assms in \<open>simp_all add: run_frame_def\<close>)

lemma handed_over_simps [simp]:
  "handed_over lib rd tt ds EvGetLastRecord"
  "handed_over lib rd tt ds (EvJsonToBinaryString js)"
  "handed_over lib rd tt ds (EvGetRecordWithKey k)"
  "handed_over lib rd tt ds (EvModuleLookup p)"
  "handed_over lib rd tt ds (EvSetOptimized h b)"
  "handed_over lib rd tt ds (EvRegisterParameter h n v b)"
  "handed_over lib rd tt ds (register_event h tt' pd)"
  by (simp_all add: handed_over_def register_event_def)

lemma convertModule_parameters_run_frame:
  "convertModule_parameters api h ps s = (r, s') \<Longrightarrow> run_frame lib [] s s'"
  by (drule convertModule_parameters_frame, elim conjE exE, rule run_frameI)
     (auto simp: list_all_iff)

lemma convertModule_arena_run_frame:
  assumes "convertModule_arena lib api h m s = (r, s')"
  shows "run_frame lib [m] s s' \<and> moduleStack_m s' = moduleStack_m s \<and>
    (r = None \<longrightarrow> arena_record lib (reader_m s) m \<noteq> None)"
proof -
  from convertModule_arena_cases [OF assms]
  have fr: "tensor_table_m s' = tensor_table_m s" "reader_m s' = reader_m s"
    "storages s' = storages s" "moduleStack_m s' = moduleStack_m s"
    and c: "(r \<noteq> None \<and> trace s' = trace s) \<or>
      (\<exists>k. stoull lib (rr_key (md_torchscript_arena m)) = Some k \<and>
         ((r \<noteq> None \<and> trace s' = trace s @ [EvGetRecordWithKey k]) \<or>
          (\<exists>bytes. arena_record lib (reader_m s) m = Some bytes \<and>
             trace s' = trace s @ [EvGetRecordWithKey k,
               EvImportMethods h bytes (tensor_table_m s)])))"
    by blast+
  from c show ?thesis
  proof (elim disjE exE conjE)
    assume "r \<noteq> None" "trace s' = trace s"
    with fr show ?thesis by (auto intro!: run_frameI [where evs = "[]"])
  next
    fix k assume "r \<noteq> None" "trace s' = trace s @ [EvGetRecordWithKey k]"
    with fr show ?thesis by (auto intro!: run_frameI [where evs = "[EvGetRecordWithKey k]"])
  next
    fix k bytes
    assume "arena_record lib (reader_m s) m = Some bytes"
      "trace s' = trace s @ [EvGetRecordWithKey k, EvImportMethods h bytes (tensor_table_m s)]"
    with fr show ?thesis
      by (auto intro!: run_frameI [where evs = "[EvGetRecordWithKey k,
            EvImportMethods h bytes (tensor_table_m s)]"] simp: handed_over_def)
  qed
qed


lemma all_modules_head: "m \<in> set (all_modules m)"
  by (cases m) simp

lemma convert_run_frame:
  "convertModule lib api lk d s = (r, s') \<Longrightarrow>
     run_frame lib (all_modules d) s s' \<and>
     (r = None \<longrightarrow> moduleStack_m s' = moduleStack_m s \<and>
        list_all (\<lambda>m. arena_record lib (reader_m s) m \<noteq> None) (all_modules d))"
  "convertSubmodules lib api lk ds s = (r, s') \<Longrightarrow>
     run_frame lib (concat (map all_modules ds)) s s' \<and>
     (r = None \<longrightarrow> moduleStack_m s' = moduleStack_m s \<and>
        list_all (\<lambda>m. arena_record lib (reader_m s) m \<noteq> None) (concat (map all_modules ds)))"
proof (induction lib api lk d s and lib api lk ds s arbitrary: r s' and r s'
    rule: convertModule_convertSubmodules.induct)
  case (1 lib api lk nm opt subs params arena s)
  let ?D = "ModuleDef nm opt subs params arena"
  let ?ds = "concat (map all_modules subs)"
  let ?s1 = "log (EvModuleLookup (moduleStack_m s)) s"
  obtain x w where lk: "lk (moduleStack_m s) (world s) = (x, w)" by force
  show ?case
  proof (cases x)
    case (Inl e)
    with lk "1.prems" have "r = Some e" "s' = ?s1\<lparr>world := w\<rparr>" by (simp_all add: Let_def)
    then show ?thesis
      by (auto intro!: run_frameI [where evs = "[EvModuleLookup (moduleStack_m s)]"])
  next
    case (Inr h)
    define s3 where "s3 = (log (EvSetOptimized h opt) (?s1\<lparr>world := w\<rparr>))
        \<lparr>world := set_optimized api h opt w\<rparr>"
    have f3: "run_frame lib [] s s3" "moduleStack_m s3 = moduleStack_m s"
      by (auto intro!: run_frameI [where evs = "[EvModuleLookup (moduleStack_m s),
            EvSetOptimized h opt]"] simp: s3_def)
    obtain r4 s4 where sub: "convertSubmodules lib api lk subs s3 = (r4, s4)" by force
    have ih: "run_frame lib ?ds s3 s4 \<and>
       (r4 = None \<longrightarrow> moduleStack_m s4 = moduleStack_m s3 \<and>
          list_all (\<lambda>m. arena_record lib (reader_m s3) m \<noteq> None) ?ds)"
      using "1.IH" [of ?s1 x w h _ s3 r4 s4] lk Inr sub by (simp add: s3_def)
    have f4: "run_frame lib (all_modules ?D) s s4"
      by (rule run_frame_seq [OF f3(1) conjunct1 [OF ih]]) auto
    have rd3: "reader_m s3 = reader_m s" by (simp add: s3_def)
    from "1.prems" lk Inr sub have run: "(case r4 of
          Some e \<Rightarrow> (Some e, s4)
        | None \<Rightarrow> (case convertModule_parameters api h params s4 of
            (Some e, s5) \<Rightarrow> (Some e, s5)
          | (None, s5) \<Rightarrow> convertModule_arena lib api h ?D s5)) = (r, s')"
      by (simp add: Let_def s3_def split: option.splits)
    show ?thesis
    proof (cases r4)
      case (Some e)
      with run f4 show ?thesis by auto
    next
      case None
      obtain r5 s5 where par: "convertModule_parameters api h params s4 = (r5, s5)" by force
      have f5: "run_frame lib (all_modules ?D) s s5"
        by (rule run_frame_seq [OF f4 convertModule_parameters_run_frame [OF par, of lib]]) auto
      have st5: "moduleStack_m s5 = moduleStack_m s4" "reader_m s5 = reader_m s4"
        using convertModule_parameters_frame [OF par] by simp_all
      show ?thesis
      proof (cases r5)
        case (Some e)
        with run None par f5 show ?thesis by auto
      next
        case n5: None
        with run None par have ar: "convertModule_arena lib api h ?D s5 = (r, s')" by simp
        note a = convertModule_arena_run_frame [OF ar]
        have f6: "run_frame lib (all_modules ?D) s s'"
          by (rule run_frame_seq [OF f5 conjunct1 [OF a]]) (auto simp: all_modules_head)
        have rd5: "reader_m s5 = reader_m s"
          using st5 f4 by (simp add: run_frame_def)
        from a ih None f3(2) st5 rd3 rd5 f6 show ?thesis by auto
      qed
    qed
  qed
next
  case (2 lib api lk s)
  then show ?case by (auto intro!: run_frameI [where evs = "[]"])
next
  case (3 lib api lk sub_def rest s)
  let ?push = "s\<lparr>moduleStack_m := moduleStack_m s @ [md_name sub_def]\<rparr>"
  obtain r1 s1 where cm: "convertModule lib api lk sub_def ?push = (r1, s1)" by force
  from "3.IH"(1) [OF cm]
  have ih1: "run_frame lib (all_modules sub_def) ?push s1"
    "r1 = None \<longrightarrow> moduleStack_m s1 = moduleStack_m ?push \<and>
       list_all (\<lambda>m. arena_record lib (reader_m ?push) m \<noteq> None) (all_modules sub_def)"
    by simp_all
  have f0: "run_frame lib [] s ?push"
    by (auto intro!: run_frameI [where evs = "[]"])
  have f1: "run_frame lib (concat (map all_modules (sub_def # rest))) s s1"
    by (rule run_frame_seq [OF f0 ih1(1)]) auto
  show ?case
  proof (cases r1)
    case (Some e)
    with cm "3.prems" f1 show ?thesis by auto
  next
    case None
    let ?pop = "s1\<lparr>moduleStack_m := butlast (moduleStack_m s1)\<rparr>"
    from cm None "3.prems" have rec: "convertSubmodules lib api lk rest ?pop = (r, s')" by simp
    from "3.IH"(2) [OF cm [symmetric] None rec]
    have ih2: "run_frame lib (concat (map all_modules rest)) ?pop s'"
      "r = None \<longrightarrow> moduleStack_m s' = moduleStack_m ?pop \<and>
         list_all (\<lambda>m. arena_record lib (reader_m ?pop) m \<noteq> None)
           (concat (map all_modules rest))"
      by simp_all
    have f2: "run_frame lib (concat (map all_modules (sub_def # rest))) s s'"
      by (rule run_frame_seq [OF f1 ih2(1)]) auto
    have rd: "reader_m s1 = reader_m s" using f1 by (simp add: run_frame_def)
    from ih1(2) None ih2(2) rd f2 show ?thesis by auto
  qed
qed


text \<open>
  C6. In every run of \<open>convertModule\<close>, a blob is handed to the code loader only as
  the bytes of the arena record of one of the tree's modules, fetched by its key with
  exactly the declared size, and together with the tensor table; a run that succeeds
  has found the arena record of every module of the tree with its declared size.
  At the module itself: a record the reader does not deliver makes the call fail with
  the reader's error, a record of another size makes it fail with
  \<open>CodeArenaSizeMismatchError\<close>, and in both cases the world is left as it was.
\<close>

theorem convertModule_code_arena:
  assumes "convertModule lib api lk d s = (r, s')"
  shows "(\<forall>h bytes tt. EvImportMethods h bytes tt \<in> set (new_events s s') \<longrightarrow>
            tt = tensor_table_m s \<and>
            (\<exists>m\<in>set (all_modules d). arena_record lib (reader_m s) m = Some bytes)) \<and>
    (r = None \<longrightarrow> (\<forall>m\<in>set (all_modules d). arena_record lib (reader_m s) m \<noteq> None)) \<and>
    (\<forall>m k e (t :: ('w, 'h) deserializer) h.
       stoull lib (rr_key (md_torchscript_arena m)) = Some k \<and>
       getRecordWithKey (reader_m t) k = Inl e \<longrightarrow>
       convertModule_arena lib api h m t = (Some e, log (EvGetRecordWithKey k) t)) \<and>
    (\<forall>m k data sz (t :: ('w, 'h) deserializer) h.
       stoull lib (rr_key (md_torchscript_arena m)) = Some k \<and>
       getRecordWithKey (reader_m t) k = Inr (data, sz) \<and>
       sz \<noteq> rr_size (md_torchscript_arena m) \<longrightarrow>
       convertModule_arena lib api h m t =
         (Some CodeArenaSizeMismatchError, log (EvGetRecordWithKey k) t))"
proof -
  from convert_run_frame(1) [OF assms]
  have fr: "run_frame lib (all_modules d) s s'"
    and ok: "r = None \<longrightarrow>
      list_all (\<lambda>m. arena_record lib (reader_m s) m \<noteq> None) (all_modules d)"
    by simp_all
  have "\<forall>h bytes tt. EvImportMethods h bytes tt \<in> set (new_events s s') \<longrightarrow>
            tt = tensor_table_m s \<and>
            (\<exists>m\<in>set (all_modules d). arena_record lib (reader_m s) m = Some bytes)"
  proof (intro allI impI)
    fix h bytes tt
    assume "EvImportMethods h bytes tt \<in> set (new_events s s')"
    with fr have "handed_over lib (reader_m s) (tensor_table_m s) (all_modules d)
        (EvImportMethods h bytes tt)"
      by (simp add: run_frame_def list_all_iff)
    then show "tt = tensor_table_m s \<and>
        (\<exists>m\<in>set (all_modules d). arena_record lib (reader_m s) m = Some bytes)"
      by (simp add: handed_over_def list_ex_iff)
  qed
  moreover from ok
  have "r = None \<longrightarrow> (\<forall>m\<in>set (all_modules d). arena_record lib (reader_m s) m \<noteq> None)"
    by (simp add: list_all_iff)
  ultimately show ?thesis
    by (simp add: convertModule_arena_def Let_def)
qed

lemma ex_convertModule:
  "convertModule ex_lib (script_module_api ex_loader) load_module_lookup ex_module ex_loaded =
     (None, snd (convertModule ex_lib (script_module_api ex_loader) load_module_lookup
        ex_module ex_loaded))"
  by (simp add: ex_loaded_eq ex_module_def ex_lib_def ex_reader_def script_module_api_def
      load_module_lookup_def convertModule_arena_def ex_loader_def log_def Let_def)

theorem convertModule_code_arena_witness:
  "arena_record ex_lib ex_reader ex_module = Some [99, 100, 101] \<and>
   arena_record ex_lib ex_reader (md_submodules ex_module ! 0) = Some [102, 103] \<and>
   fst (convertModule ex_lib (script_module_api ex_loader) load_module_lookup ex_module
          ex_loaded) = None \<and>
   convertModule_arena ex_lib (script_module_api ex_loader) [] ex_bad_arena_module ex_loaded =
     (Some CodeArenaSizeMismatchError, log (EvGetRecordWithKey 9) ex_loaded)"
proof -
  note t = convertModule_code_arena [OF ex_convertModule]
  note ok = t [THEN conjunct2, THEN conjunct1]
  note mismatch = t [THEN conjunct2, THEN conjunct2, THEN conjunct2, rule_format,
      where m = ex_bad_arena_module and k = 9 and data = "[99, 100, 101]" and sz = 3
        and t = ex_loaded and h = "[]"]
  have rd: "reader_m ex_loaded = ex_reader" by (simp add: ex_loaded_eq)
  have a3: "fst (convertModule ex_lib (script_module_api ex_loader) load_module_lookup ex_module
          ex_loaded) = None"
    using ex_convertModule by (metis fst_conv)
  with ok have "\<forall>m\<in>set (all_modules ex_module). arena_record ex_lib (reader_m ex_loaded) m \<noteq> None"
    using ex_convertModule by simp
  then have "arena_record ex_lib ex_reader ex_module \<noteq> None \<and>
      arena_record ex_lib ex_reader (md_submodules ex_module ! 0) \<noteq> None"
    by (simp add: rd ex_module_def)
  then have a12: "arena_record ex_lib ex_reader ex_module = Some [99, 100, 101] \<and>
      arena_record ex_lib ex_reader (md_submodules ex_module ! 0) = Some [102, 103]"
    by (simp add: arena_record_def ex_module_def ex_lib_def ex_reader_def)
  have a4: "convertModule_arena ex_lib (script_module_api ex_loader) []
      ex_bad_arena_module ex_loaded =
     (Some CodeArenaSizeMismatchError, log (EvGetRecordWithKey 9) ex_loaded)"
    by (rule mismatch) (simp add: ex_bad_arena_module_def rd ex_lib_def ex_reader_def)
  from a12 a3 a4 show ?thesis by blast
qed

subsection \<open>deserialize and the entry points\<close>

text \<open>
  The verdict of the transcoder is propagated: when \<open>JsonToBinaryString\<close> or
  \<open>ParseFromString\<close> rejects the last record, \<open>deserialize\<close> fails with that error
  and the state it leaves has only the two calls logged. Which texts the transcoder
  rejects is decided by the protobuf library and is not part of this development.
\<close>

lemma deserialize_propagates_rejection:
  assumes "getLastRecord (reader_m s) = Inr (data_ptr, data_size)"
    and "metadata_rejected lib (take (unat data_size) data_ptr)"
  shows "deserialize lib api module_lookup s =
     (Some (rejection_error lib (take (unat data_size) data_ptr)),
      log (EvJsonToBinaryString (take (unat data_size) data_ptr)) (log EvGetLastRecord s))"
  using assms
  by (simp add: deserialize_def metadata_rejected_def rejection_error_def Let_def
      split: sum.splits)

text \<open>
  C8, at a path that cannot be opened: \<^verbatim>\<open>load\<close> fails with the open error, while
  \<^verbatim>\<open>import_ir_module\<close> hands the failed stream to the reader and fails with
  whatever the reader makes of it.
\<close>

theorem import_ir_module_filename_unopened:
  "load_filename ex_lib ex_loader Map.empty ''missing.pt'' = Inl ArchiveOpenError \<and>
   import_ir_module_filename ex_lib (script_module_api ex_loader) load_module_lookup
     Map.empty ''missing.pt'' new_Module = Inl ArchiveReadError \<and>
   import_ir_module_filename ex_lib (script_module_api ex_loader) load_module_lookup
     Map.empty ''missing.pt'' new_Module =
   import_ir_module_stream ex_lib (script_module_api ex_loader) load_module_lookup
     (IStream True []) new_Module"
  by (simp add: load_filename_def import_ir_module_filename_def import_ir_module_stream_def
      ScriptModuleDeserializer_filename_def ScriptModuleDeserializer_stream_def ifstream_def
      ex_lib_def)

text \<open>
  C9. \<^verbatim>\<open>load\<close> from a file name is the open check followed by \<^verbatim>\<open>load\<close> from
  the stream over the file's bytes.
\<close>

theorem load_filename_delegates:
  "load_filename lib loader fs filename =
     (case fs filename of
        None \<Rightarrow> Inl ArchiveOpenError
      | Some bytes \<Rightarrow> load_stream lib loader (IStream False bytes))"
  by (simp add: load_filename_def ifstream_def Let_def split: option.splits)

theorem load_filename_delegates_witness:
  "load_filename ex_lib ex_loader (Map.empty(''model.pt'' \<mapsto> [])) ''model.pt'' =
     load_stream ex_lib ex_loader (IStream False []) \<and>
   map fst (modules (projr (load_stream ex_lib ex_loader (IStream False [])))) = [''sub''] \<and>
   load_filename ex_lib ex_loader Map.empty ''model.pt'' = Inl ArchiveOpenError"
  using load_filename_delegates [of ex_lib ex_loader "Map.empty(''model.pt'' \<mapsto> [])" "''model.pt''"]
    load_filename_delegates [of ex_lib ex_loader Map.empty "''model.pt''"]
  by (simp add: load_stream_def ScriptModuleDeserializer_stream_def deserialize_def
      loadTensorTable_def loadTensor_def ex_defs log_def th_tensor_def Let_def
      convertModule_arena_def load_module_lookup_def script_module_api_def new_Module_def
      Module_set_optimized_def Module_register_parameter_def Module_add_methods_def
      find_module_def register_module_def ex_loader_def)

subsection \<open>The order of the calls\<close>

lemma erase_simps [simp]:
  "erase EvGetLastRecord = EvGetLastRecord"
  "erase (EvJsonToBinaryString js) = EvJsonToBinaryString js"
  "erase (EvGetRecordWithKey k) = EvGetRecordWithKey k"
  "erase (EvModuleLookup p) = EvModuleLookup p"
  "erase (EvSetOptimized h b) = EvSetOptimized () b"
  "erase (EvRegisterParameter h n v b) = EvRegisterParameter () n v b"
  "erase (EvImportMethods h bytes tt) = EvImportMethods () bytes tt"
  "erase (register_event h tt pd) = register_event () tt pd"
  by (simp_all add: erase_def register_event_def)

lemma new_events_eq: "trace s' = trace s @ evs \<Longrightarrow> new_events s s' = evs"
  by (simp add: new_events_def)

lemma loadTensors_trace:
  assumes "loadTensors lib ts m s = (None, m', s')"
    and "dom m = set seen"
  shows "trace s' = trace s @
      map EvGetRecordWithKey (first_keys seen (map (the \<circ> key_of lib) ts)) \<and>
    length (tensor_table_m s') = length (tensor_table_m s) + length ts \<and>
    (\<forall>i<length ts. tensor_table_m s' ! (length (tensor_table_m s) + i) =
       th_tensor (t_storage (tensor_table_m s' ! (length (tensor_table_m s) + i))) (ts ! i)) \<and>
    take (length (tensor_table_m s)) (tensor_table_m s') = tensor_table_m s"
  using assms
proof (induction ts arbitrary: m s seen)
  case Nil
  then show ?case by simp
next
  case (Cons t ts)
  obtain x m1 s1 where lt: "loadTensor lib t m s = (x, m1, s1)"
    by (metis prod_cases3)
  from Cons.prems(1) lt obtain v where x: "x = Inr v"
    by (cases x) auto
  let ?s2 = "s1\<lparr>tensor_table_m := tensor_table_m s1 @ [v]\<rparr>"
  from Cons.prems(1) lt x have rec: "loadTensors lib ts m1 ?s2 = (None, m', s')" by simp
  from loadTensor_Inr [of lib t m s v m1 s1] lt x obtain k where k: "key_of lib t = Some k"
    "v = th_tensor (t_storage v) t" "tensor_table_m s1 = tensor_table_m s"
    and c: "case m k of Some a \<Rightarrow> m1 = m \<and> s1 = s
        | None \<Rightarrow> m1 = m(k \<mapsto> length (storages s)) \<and>
          trace s1 = trace s @ [EvGetRecordWithKey k] \<and>
          (\<exists>st. storages s1 = storages s @ [st])"
    by auto
  let ?seen1 = "if k \<in> set seen then seen else k # seen"
  have mem: "(k \<in> set seen) = (m k \<noteq> None)"
    using Cons.prems(2) by (metis domIff)
  have d1: "dom m1 = set ?seen1"
    using c Cons.prems(2) mem by (auto split: option.splits if_splits)
  note ih = Cons.IH [OF rec d1]
  have tr1: "trace s1 = trace s @ (if k \<in> set seen then [] else [EvGetRecordWithKey k])"
    using c mem by (auto split: option.splits)
  have len: "length (tensor_table_m ?s2) = Suc (length (tensor_table_m s))"
    using k(3) by simp
  have tk: "take (Suc (length (tensor_table_m s))) (tensor_table_m s') = tensor_table_m s @ [v]"
    using ih len k(3) by simp
  have "take (Suc (length (tensor_table_m s))) (tensor_table_m s') ! length (tensor_table_m s) =
      (tensor_table_m s @ [v]) ! length (tensor_table_m s)"
    by (simp only: tk)
  then have at0: "tensor_table_m s' ! length (tensor_table_m s) = v"
    by simp
  have "take (length (tensor_table_m s)) (take (Suc (length (tensor_table_m s))) (tensor_table_m s')) =
      take (length (tensor_table_m s)) (tensor_table_m s @ [v])"
    by (simp only: tk)
  then have tk0: "take (length (tensor_table_m s)) (tensor_table_m s') = tensor_table_m s"
    by (simp add: min_def)
  have idx: "\<forall>i<length (t # ts). tensor_table_m s' ! (length (tensor_table_m s) + i) =
       th_tensor (t_storage (tensor_table_m s' ! (length (tensor_table_m s) + i))) ((t # ts) ! i)"
  proof (intro allI impI)
    fix i assume i: "i < length (t # ts)"
    show "tensor_table_m s' ! (length (tensor_table_m s) + i) =
       th_tensor (t_storage (tensor_table_m s' ! (length (tensor_table_m s) + i))) ((t # ts) ! i)"
    proof (cases i)
      case 0
      with at0 k(2) show ?thesis by simp
    next
      case (Suc j)
      with i ih len show ?thesis by simp
    qed
  qed
  show ?case
    using ih tr1 k(1) len idx tk0 by (simp split: if_splits)
qed


lemma new_events_trans:
  "trace s1 = trace s @ a \<Longrightarrow> trace s2 = trace s1 @ b \<Longrightarrow> new_events s s2 = a @ b"
  by (simp add: new_events_def)

lemma convertModule_arena_trace:
  assumes "convertModule_arena lib api h m s = (None, s')"
  shows "\<exists>k bytes. stoull lib (rr_key (md_torchscript_arena m)) = Some k \<and>
     arena_record lib (reader_m s) m = Some bytes \<and>
     trace s' = trace s @ [EvGetRecordWithKey k, EvImportMethods h bytes (tensor_table_m s)]"
  using convertModule_arena_cases [OF assms] by auto

lemma convertModule_parameters_trace:
  assumes "convertModule_parameters api h ps s = (None, s')"
  shows "trace s' = trace s @ map (register_event h (tensor_table_m s)) ps"
  using convertModule_parameters_frame [OF assms] by auto

lemma convert_trace:
  "convertModule lib api lk d s = (r, s') \<Longrightarrow> r = None \<Longrightarrow>
     map erase (new_events s s') =
       build_events lib (reader_m s) (tensor_table_m s) (moduleStack_m s) d"
  "convertSubmodules lib api lk ds s = (r, s') \<Longrightarrow> r = None \<Longrightarrow>
     map erase (new_events s s') =
       concat (map (\<lambda>sub. build_events lib (reader_m s) (tensor_table_m s)
                            (moduleStack_m s @ [md_name sub]) sub) ds)"
proof (induction lib api lk d s and lib api lk ds s arbitrary: r s' and r s'
    rule: convertModule_convertSubmodules.induct)
  case (1 lib api lk nm opt subs params arena s)
  let ?D = "ModuleDef nm opt subs params arena"
  let ?s1 = "log (EvModuleLookup (moduleStack_m s)) s"
  obtain x w where lk: "lk (moduleStack_m s) (world s) = (x, w)" by force
  from "1.prems" lk obtain h where x: "x = Inr h"
    by (cases x) (auto simp: Let_def)
  define s3 where "s3 = (log (EvSetOptimized h opt) (?s1\<lparr>world := w\<rparr>))
      \<lparr>world := set_optimized api h opt w\<rparr>"
  have f3: "trace s3 = trace s @ [EvModuleLookup (moduleStack_m s), EvSetOptimized h opt]"
    "moduleStack_m s3 = moduleStack_m s" "reader_m s3 = reader_m s"
    "tensor_table_m s3 = tensor_table_m s"
    by (simp_all add: s3_def)
  obtain r4 s4 where sub: "convertSubmodules lib api lk subs s3 = (r4, s4)" by force
  from "1.prems" lk x sub have run: "(case r4 of
        Some e \<Rightarrow> (Some e, s4)
      | None \<Rightarrow> (case convertModule_parameters api h params s4 of
          (Some e, s5) \<Rightarrow> (Some e, s5)
        | (None, s5) \<Rightarrow> convertModule_arena lib api h ?D s5)) = (None, s')"
    by (simp add: Let_def s3_def split: option.splits)
  then have r4: "r4 = None" by (cases r4) auto
  obtain r5 s5 where par: "convertModule_parameters api h params s4 = (r5, s5)" by force
  from run r4 par have r5: "r5 = None" by (cases r5) auto
  from run r4 par r5 have ar: "convertModule_arena lib api h ?D s5 = (None, s')" by simp
  have ih: "map erase (new_events s3 s4) =
      concat (map (\<lambda>sub. build_events lib (reader_m s3) (tensor_table_m s3)
                            (moduleStack_m s3 @ [md_name sub]) sub) subs)"
    using "1.IH" [of ?s1 x w h _ s3 r4 s4] lk x sub r4 by (simp add: s3_def)
  note fr4 = convert_run_frame(2) [OF sub]
  from fr4 have t4: "trace s4 = trace s3 @ new_events s3 s4"
    and k4: "tensor_table_m s4 = tensor_table_m s3" "reader_m s4 = reader_m s3"
    by (simp_all add: run_frame_def)
  from convertModule_parameters_trace [OF par [unfolded r5]]
  have t5: "trace s5 = trace s4 @ map (register_event h (tensor_table_m s4)) params" .
  from convertModule_parameters_frame [OF par]
  have k5: "tensor_table_m s5 = tensor_table_m s4" "reader_m s5 = reader_m s4" by simp_all
  from convertModule_arena_trace [OF ar] obtain k bytes where a:
    "stoull lib (rr_key arena) = Some k" "arena_record lib (reader_m s5) ?D = Some bytes"
    "trace s' = trace s5 @ [EvGetRecordWithKey k, EvImportMethods h bytes (tensor_table_m s5)]"
    by auto
  have "trace s' = trace s @ ([EvModuleLookup (moduleStack_m s), EvSetOptimized h opt] @
      new_events s3 s4 @ map (register_event h (tensor_table_m s)) params @
      [EvGetRecordWithKey k, EvImportMethods h bytes (tensor_table_m s)])"
    using a(3) t5 t4 f3 k4 k5 by simp
  from new_events_eq [OF this] ih a(1,2) f3 k4 k5 show ?case
    by (simp add: comp_def)
next
  case (2 lib api lk s)
  then show ?case by (simp add: new_events_def)
next
  case (3 lib api lk sub_def rest s)
  let ?push = "s\<lparr>moduleStack_m := moduleStack_m s @ [md_name sub_def]\<rparr>"
  obtain r1 s1 where cm: "convertModule lib api lk sub_def ?push = (r1, s1)" by force
  from "3.prems" cm have r1: "r1 = None" by (cases r1) auto
  let ?pop = "s1\<lparr>moduleStack_m := butlast (moduleStack_m s1)\<rparr>"
  from cm r1 "3.prems" have rec: "convertSubmodules lib api lk rest ?pop = (None, s')" by simp
  note fr1 = convert_run_frame(1) [OF cm]
  from fr1 r1 have k1: "trace s1 = trace s @ new_events ?push s1"
    "tensor_table_m s1 = tensor_table_m s" "reader_m s1 = reader_m s"
    "moduleStack_m s1 = moduleStack_m s @ [md_name sub_def]"
    by (simp_all add: run_frame_def)
  note fr2 = convert_run_frame(2) [OF rec]
  from fr2 have k2: "trace s' = trace s1 @ new_events ?pop s'"
    by (simp add: run_frame_def)
  from "3.IH"(1) [OF cm r1]
  have ih1: "map erase (new_events ?push s1) =
      build_events lib (reader_m s) (tensor_table_m s) (moduleStack_m s @ [md_name sub_def]) sub_def"
    by simp
  from "3.IH"(2) [OF cm [symmetric] r1 rec refl] k1
  have ih2: "map erase (new_events ?pop s') =
      concat (map (\<lambda>sub. build_events lib (reader_m s) (tensor_table_m s)
                            (moduleStack_m s @ [md_name sub]) sub) rest)"
    by simp
  from new_events_trans [OF k1(1) k2] ih1 ih2 show ?case by simp
qed


text \<open>
  C7. A run of \<open>deserialize\<close> that succeeds, started as the constructors leave the
  deserializer (empty table, empty module stack), has fetched the last record and
  transcoded it into a model, holds a tensor table with one tensor per descriptor of
  the model's tensor list, the tensor at position \<open>i\<close> being the view described by the
  descriptor at position \<open>i\<close>, and has made its calls in this order: the fetch of the
  last record, the transcoding, the fetches of the storage records in the order of
  their first reference in the tensor list, and then the build of the main module from
  the empty qualified name, with the complete tensor table.
\<close>

theorem deserialize_order:
  assumes "deserialize lib api module_lookup s = (None, s')"
    and "tensor_table_m s = []"
    and "moduleStack_m s = []"
  shows "\<exists>data_ptr data_size binary_string model.
    getLastRecord (reader_m s) = Inr (data_ptr, data_size) \<and>
    JsonToBinaryString lib (take (unat data_size) data_ptr) = Inr binary_string \<and>
    ParseFromString lib binary_string = Some model \<and>
    length (tensor_table_m s') = length (tensors model) \<and>
    (\<forall>i<length (tensors model).
       tensor_table_m s' ! i = th_tensor (t_storage (tensor_table_m s' ! i)) (tensors model ! i)) \<and>
    map erase (new_events s s') =
      [EvGetLastRecord, EvJsonToBinaryString (take (unat data_size) data_ptr)] @
      map EvGetRecordWithKey (first_keys [] (map (the \<circ> key_of lib) (tensors model))) @
      build_events lib (reader_m s) (tensor_table_m s') [] (main_module model)"
proof -
  from assms(1) obtain data_ptr data_size where last:
    "getLastRecord (reader_m s) = Inr (data_ptr, data_size)"
    by (cases "getLastRecord (reader_m s)") (auto simp: deserialize_def Let_def)
  let ?json = "take (unat data_size) data_ptr"
  let ?s2 = "log (EvJsonToBinaryString ?json) (log EvGetLastRecord s)"
  from assms(1) last obtain binary_string where bin:
    "JsonToBinaryString lib ?json = Inr binary_string"
    by (cases "JsonToBinaryString lib ?json") (auto simp: deserialize_def Let_def)
  from assms(1) last bin obtain model where model: "ParseFromString lib binary_string = Some model"
    by (cases "ParseFromString lib binary_string") (auto simp: deserialize_def Let_def)
  obtain r3 m3 s3 where lt: "loadTensors lib (tensors model) Map.empty ?s2 = (r3, m3, s3)"
    by (metis prod_cases3)
  from assms(1) last bin model lt have r3: "r3 = None"
    by (cases r3) (auto simp: deserialize_def loadTensorTable_def Let_def)
  from assms(1) last bin model lt r3
  have cm: "convertModule lib api module_lookup (main_module model) s3 = (None, s')"
    by (simp add: deserialize_def loadTensorTable_def Let_def)
  have "dom (Map.empty :: u64 \<rightharpoonup> nat) = set []" by simp
  from loadTensors_trace [OF lt [unfolded r3] this] assms(2)
  have t3: "trace s3 = trace s @ [EvGetLastRecord, EvJsonToBinaryString ?json] @
        map EvGetRecordWithKey (first_keys [] (map (the \<circ> key_of lib) (tensors model)))"
    and len3: "length (tensor_table_m s3) = length (tensors model)"
    and idx3: "\<forall>i<length (tensors model).
       tensor_table_m s3 ! i = th_tensor (t_storage (tensor_table_m s3 ! i)) (tensors model ! i)"
    by simp_all
  from loadTensors_frame [OF lt] assms(3)
  have k3: "moduleStack_m s3 = []" "reader_m s3 = reader_m s" by simp_all
  note fr = convert_run_frame(1) [OF cm]
  from fr have k4: "tensor_table_m s' = tensor_table_m s3"
    "trace s' = trace s3 @ new_events s3 s'"
    by (simp_all add: run_frame_def)
  from convert_trace(1) [OF cm refl] k3 k4
  have b: "map erase (new_events s3 s') =
      build_events lib (reader_m s) (tensor_table_m s') [] (main_module model)"
    by simp
  from new_events_trans [OF t3 k4(2)] b
  have "map erase (new_events s s') =
      [EvGetLastRecord, EvJsonToBinaryString ?json] @
      map EvGetRecordWithKey (first_keys [] (map (the \<circ> key_of lib) (tensors model))) @
      build_events lib (reader_m s) (tensor_table_m s') [] (main_module model)"
    by (simp add: comp_def)
  with last bin model len3 idx3 k4(1) show ?thesis by auto
qed

lemma ex_deserialize:
  "deserialize ex_lib (script_module_api ex_loader) load_module_lookup ex_deserializer =
     (None, snd (deserialize ex_lib (script_module_api ex_loader) load_module_lookup
        ex_deserializer))"
  by (simp add: deserialize_def loadTensorTable_def loadTensor_def ex_defs log_def th_tensor_def
      Let_def convertModule_arena_def load_module_lookup_def script_module_api_def ex_loader_def)

theorem deserialize_order_witness:
  "map erase (new_events ex_deserializer
      (snd (deserialize ex_lib (script_module_api ex_loader) load_module_lookup ex_deserializer))) =
     [EvGetLastRecord, EvJsonToBinaryString [123, 125],
      EvGetRecordWithKey 7, EvGetRecordWithKey 8,
      EvModuleLookup [], EvSetOptimized () True,
      EvModuleLookup [''sub''], EvSetOptimized () False,
      EvRegisterParameter () ''bias'' (th_tensor 1 (ex_tensors ! 2)) False,
      EvGetRecordWithKey 10,
      EvImportMethods () [102, 103] (tensor_table_m ex_loaded),
      EvRegisterParameter () ''weight'' (th_tensor 0 (ex_tensors ! 0)) False,
      EvRegisterParameter () ''running_mean'' (th_tensor 0 (ex_tensors ! 1)) True,
      EvGetRecordWithKey 9,
      EvImportMethods () [99, 100, 101] (tensor_table_m ex_loaded)] \<and>
   tensor_table_m (snd (deserialize ex_lib (script_module_api ex_loader) load_module_lookup
      ex_deserializer)) = tensor_table_m ex_loaded"
  using deserialize_order [OF ex_deserialize]
  by (simp add: deserialize_def loadTensorTable_def loadTensor_def ex_defs log_def th_tensor_def
      Let_def convertModule_arena_def load_module_lookup_def script_module_api_def ex_loader_def
      ex_loaded_def new_events_def)

subsection \<open>The tree that load builds\<close>

lemma children_module_shape [simp]:
  "children (module_shape m) = map (\<lambda>(name, c). (name, module_shape c)) (modules m)"
  by (cases m) simp

lemma shape_eqI: "children a = children b \<Longrightarrow> a = b"
  by (cases a, cases b) simp

lemma map_of_shape [simp]:
  "(map_of (map (\<lambda>(name, c). (name, f c)) ms) name = None) = (map_of ms name = None)"
  by (induction ms) auto

lemma upd_child_append_new:
  "map_of ms name = None \<Longrightarrow> upd_child name f (ms @ [(name, c)]) = ms @ [(name, f c)]"
  by (induction ms) (auto split: if_splits)

lemma upd_child_shape:
  assumes "\<And>c. module_shape (f c) = g (module_shape c)"
  shows "map (\<lambda>(name, c). (name, module_shape c)) (upd_child name f ms) =
    upd_child name g (map (\<lambda>(name, c). (name, module_shape c)) ms)"
  using assms by (induction ms) auto

lemma at_module_Nil: "at_module [] f = f"
  by (rule ext) simp

lemma child_shape:
  assumes "\<And>c. module_shape (f c) = g (module_shape c)"
  shows "module_shape (at_module [name] f
      (if find_module m name = None then register_module name new_Module m else m)) =
    grow_child name g (module_shape m)"
proof (cases "map_of (modules m) name = None")
  case True
  have new: "module_shape (f new_Module) = g (Shape [])"
    by (simp add: assms new_Module_def)
  have "module_shape (at_module [name] f (register_module name new_Module m)) =
      grow_child name g (module_shape m)"
    using True new
    by (intro shape_eqI)
       (simp add: register_module_def grow_child_def upd_child_append_new at_module_Nil)
  with True show ?thesis by (simp add: find_module_def)
next
  case False
  have "module_shape (at_module [name] f m) = grow_child name g (module_shape m)"
    using False
    by (intro shape_eqI)
       (auto simp: grow_child_def at_module_Nil upd_child_shape [of f g, OF assms])
  with False show ?thesis by (auto simp: find_module_def)
qed

lemma load_walk_shape: "module_shape (load_walk p m) = walk_then p (\<lambda>sh. sh) (module_shape m)"
proof (induction p arbitrary: m)
  case Nil
  then show ?case by simp
next
  case (Cons name p)
  have "\<And>c. module_shape (load_walk p c) = walk_then p (\<lambda>sh. sh) (module_shape c)"
    by (rule Cons.IH)
  from child_shape [of "load_walk p" "walk_then p (\<lambda>sh. sh)", OF this]
  show ?case by (simp add: Let_def)
qed

lemma upd_child_same_shape:
  assumes "\<And>c. module_shape (f c) = module_shape c"
  shows "map (\<lambda>(name, c). (name, module_shape c)) (upd_child name f ms) =
    map (\<lambda>(name, c). (name, module_shape c)) ms"
  using assms by (induction ms) auto

lemma at_module_shape:
  assumes "\<And>c. module_shape (f c) = module_shape c"
  shows "module_shape (at_module h f m) = module_shape m"
proof (induction h arbitrary: m)
  case Nil
  then show ?case by (simp add: assms)
next
  case (Cons name h)
  have "\<And>c. module_shape (at_module h f c) = module_shape c"
    by (rule Cons.IH)
  from upd_child_same_shape [of "at_module h f", OF this]
  show ?case by (intro shape_eqI) simp
qed


lemma map_fst_upd_child [simp]: "map fst (upd_child name f cs) = map fst cs"
  by (induction cs) auto

lemma map_of_upd_child [simp]:
  "(map_of (upd_child name f cs) k = None) = (map_of cs k = None)"
proof -
  have "fst ` set (upd_child name f cs) = fst ` set cs"
    by (metis map_fst_upd_child set_map)
  then show ?thesis by (simp add: map_of_eq_None_iff)
qed

lemma upd_child_twice:
  "upd_child name f2 (upd_child name f1 cs) = upd_child name (\<lambda>x. f2 (f1 x)) cs"
  by (induction cs) auto

lemma grow_child_twice:
  "grow_child name f2 (grow_child name f1 sh) = grow_child name (\<lambda>x. f2 (f1 x)) sh"
  by (auto simp: grow_child_def upd_child_twice upd_child_append_new)

lemma walk_then_twice:
  "walk_then p g2 (walk_then p g1 sh) = walk_then p (\<lambda>x. g2 (g1 x)) sh"
proof (induction p arbitrary: g1 g2 sh)
  case Nil
  then show ?case by simp
next
  case (Cons name p)
  have "(\<lambda>x. walk_then p g2 (walk_then p g1 x)) = walk_then p (\<lambda>x. g2 (g1 x))"
    by (rule ext) (rule Cons.IH)
  then show ?case by (simp add: grow_child_twice)
qed

lemma walk_then_append: "walk_then (p @ q) g = walk_then p (walk_then q g)"
proof (induction p)
  case Nil
  show ?case by (rule ext) simp
next
  case (Cons name p)
  show ?case by (rule ext) (simp add: Cons.IH)
qed

lemma walk_then_Nil: "walk_then [] g = g"
  by (rule ext) simp

lemma walk_then_single: "walk_then [name] g = grow_child name g"
  by (rule ext) (simp add: walk_then_Nil)

lemma grow_subs_Cons_fun:
  "grow_subs (sub # rest) = (\<lambda>x. grow_subs rest (grow_child (md_name sub) (grow sub) x))"
  by (rule ext) simp

lemma grow_subs_single: "grow_subs [sub] = grow_child (md_name sub) (grow sub)"
  by (rule ext) simp

lemma Module_ops_shape [simp]:
  "module_shape (Module_set_optimized b c) = module_shape c"
  "module_shape (Module_register_parameter name v is_buffer c) = module_shape c"
  "module_shape (Module_add_methods data tt c) = module_shape c"
  by (rule shape_eqI, simp add: Module_set_optimized_def Module_register_parameter_def
      Module_add_methods_def)+

lemma load_parameters_shape:
  "convertModule_parameters (script_module_api loader) h ps s = (r, s') \<Longrightarrow>
     module_shape (world s') = module_shape (world s)"
proof (induction ps arbitrary: s)
  case Nil
  then show ?case by simp
next
  case (Cons pd ps)
  show ?case
  proof (cases "unat (pd_tensor_id pd) < length (tensor_table_m s)")
    case False
    with Cons.prems show ?thesis by simp
  next
    case True
    let ?w = "at_module h (Module_register_parameter (pd_name pd)
        (tensor_table_m s ! unat (pd_tensor_id pd)) (pd_is_buffer pd)) (world s)"
    from True Cons.prems obtain s1 where
      rec: "convertModule_parameters (script_module_api loader) h ps s1 = (r, s')"
      and w1: "world s1 = ?w"
      by (auto simp: script_module_api_def Let_def)
    from Cons.IH [OF rec] w1 show ?thesis by (simp add: at_module_shape)
  qed
qed

lemma load_arena_shape:
  "convertModule_arena lib (script_module_api loader) h m s = (r, s') \<Longrightarrow>
     module_shape (world s') = module_shape (world s)"
  by (auto simp: convertModule_arena_def script_module_api_def Let_def at_module_shape
      split: option.splits sum.splits prod.splits if_splits)


lemma load_convert_shape:
  "convertModule lib api lk d s = (r, s') \<Longrightarrow> r = None \<Longrightarrow>
     api = script_module_api loader \<Longrightarrow> lk = load_module_lookup \<Longrightarrow>
     module_shape (world s') = walk_then (moduleStack_m s) (grow d) (module_shape (world s))"
  "convertSubmodules lib api lk ds s = (r, s') \<Longrightarrow> r = None \<Longrightarrow>
     api = script_module_api loader \<Longrightarrow> lk = load_module_lookup \<Longrightarrow>
     module_shape (world s') =
       (if ds = [] then module_shape (world s)
        else walk_then (moduleStack_m s) (grow_subs ds) (module_shape (world s)))"
proof (induction lib api lk d s and lib api lk ds s arbitrary: r s' and r s'
    rule: convertModule_convertSubmodules.induct)
  case (1 lib api lk nm opt subs params arena s)
  let ?D = "ModuleDef nm opt subs params arena"
  let ?p = "moduleStack_m s"
  let ?s1 = "log (EvModuleLookup ?p) s"
  let ?w = "load_walk ?p (world s)"
  note api = "1.prems"(3) and lk = "1.prems"(4)
  define s3 where "s3 = (log (EvSetOptimized ?p opt) (?s1\<lparr>world := ?w\<rparr>))
      \<lparr>world := set_optimized api ?p opt ?w\<rparr>"
  have w3: "module_shape (world s3) = walk_then ?p (\<lambda>sh. sh) (module_shape (world s))"
    by (simp add: s3_def api script_module_api_def at_module_shape load_walk_shape)
  have st3: "moduleStack_m s3 = ?p" by (simp add: s3_def)
  obtain r4 s4 where sub: "convertSubmodules lib api lk subs s3 = (r4, s4)" by force
  from "1.prems"(1,2) sub have run: "(case r4 of
        Some e \<Rightarrow> (Some e, s4)
      | None \<Rightarrow> (case convertModule_parameters api ?p params s4 of
          (Some e, s5) \<Rightarrow> (Some e, s5)
        | (None, s5) \<Rightarrow> convertModule_arena lib api ?p ?D s5)) = (None, s')"
    by (simp add: Let_def s3_def lk load_module_lookup_def split: option.splits)
  then have r4: "r4 = None" by (cases r4) auto
  obtain r5 s5 where par: "convertModule_parameters api ?p params s4 = (r5, s5)" by force
  from run r4 par have r5: "r5 = None" by (cases r5) auto
  from run r4 par r5 have ar: "convertModule_arena lib api ?p ?D s5 = (None, s')" by simp
  have ih: "module_shape (world s4) =
      (if subs = [] then module_shape (world s3)
       else walk_then ?p (grow_subs subs) (module_shape (world s3)))"
    using "1.IH" [of ?s1 "Inr ?p" ?w ?p _ s3 r4 s4] sub r4 api lk st3
    by (simp add: s3_def load_module_lookup_def)
  have w5: "module_shape (world s') = module_shape (world s4)"
    using load_parameters_shape [OF par [unfolded api]] load_arena_shape [OF ar [unfolded api]]
    by simp
  show ?case
    using w5 ih w3 by (simp add: walk_then_twice)
next
  case (2 lib api lk s)
  then show ?case by simp
next
  case (3 lib api lk sub_def rest s)
  let ?p = "moduleStack_m s"
  let ?push = "s\<lparr>moduleStack_m := ?p @ [md_name sub_def]\<rparr>"
  obtain r1 s1 where cm: "convertModule lib api lk sub_def ?push = (r1, s1)" by force
  from "3.prems"(1,2) cm have r1: "r1 = None" by (cases r1) auto
  let ?pop = "s1\<lparr>moduleStack_m := butlast (moduleStack_m s1)\<rparr>"
  from cm r1 "3.prems" have rec: "convertSubmodules lib api lk rest ?pop = (None, s')" by simp
  from convert_run_frame(1) [OF cm] r1
  have st1: "moduleStack_m s1 = ?p @ [md_name sub_def]" by simp
  from "3.IH"(1) [OF cm r1 "3.prems"(3,4)]
  have w1: "module_shape (world s1) =
      walk_then ?p (grow_child (md_name sub_def) (grow sub_def)) (module_shape (world s))"
    by (simp add: walk_then_append walk_then_single)
  from "3.IH"(2) [OF cm [symmetric] r1 rec refl "3.prems"(3,4)] st1
  have w2: "module_shape (world s') =
      (if rest = [] then module_shape (world s1)
       else walk_then ?p (grow_subs rest) (module_shape (world s1)))"
    by simp
  show ?case
  proof (cases "rest = []")
    case True
    with w1 w2 show ?thesis by (simp add: grow_subs_single)
  next
    case False
    with w1 w2 show ?thesis by (simp add: walk_then_twice grow_subs_Cons_fun)
  qed
qed

lemma grow_subs_distinct:
  assumes "distinct (map md_name subs)"
    and "set (map md_name subs) \<inter> fst ` set cs = {}"
    and "\<And>sub. sub \<in> set subs \<Longrightarrow> grow sub (Shape []) = def_shape sub"
  shows "grow_subs subs (Shape cs) = Shape (cs @ map (\<lambda>sub. (md_name sub, def_shape sub)) subs)"
  using assms
proof (induction subs arbitrary: cs)
  case Nil
  then show ?case by simp
next
  case (Cons sub rest)
  from Cons.prems(2) have "map_of cs (md_name sub) = None"
    by (auto simp: map_of_eq_None_iff)
  then have g: "grow_child (md_name sub) (grow sub) (Shape cs) =
      Shape (cs @ [(md_name sub, def_shape sub)])"
    using Cons.prems(3) [of sub] by (simp add: grow_child_def)
  have "grow_subs rest (Shape (cs @ [(md_name sub, def_shape sub)])) =
      Shape ((cs @ [(md_name sub, def_shape sub)]) @
        map (\<lambda>sub. (md_name sub, def_shape sub)) rest)"
    using Cons.prems by (intro Cons.IH) auto
  with g show ?case by simp
qed

lemma grow_distinct: "distinct_names d \<Longrightarrow> grow d (Shape []) = def_shape d"
proof (induction d)
  case (ModuleDef nm opt subs params arena)
  have "grow_subs subs (Shape []) = Shape ([] @ map (\<lambda>sub. (md_name sub, def_shape sub)) subs)"
    using ModuleDef.prems ModuleDef.IH
    by (intro grow_subs_distinct) (auto simp: list_all_iff)
  then show ?case by simp
qed


lemma load_stream_shape:
  assumes "load_stream lib loader is = Inr root"
    and "PyTorchStreamReader lib is = Inr rd"
    and "getLastRecord rd = Inr (data_ptr, data_size)"
    and "JsonToBinaryString lib (take (unat data_size) data_ptr) = Inr binary_string"
    and "ParseFromString lib binary_string = Some model"
  shows "module_shape root = grow (main_module model) (Shape [])"
proof -
  let ?api = "script_module_api loader"
  let ?s0 = "\<lparr>reader_m = rd, moduleStack_m = [], tensor_table_m = [], storages = [],
      trace = [], world = new_Module\<rparr> :: (module, string list) deserializer"
  let ?s2 = "log (EvJsonToBinaryString (take (unat data_size) data_ptr)) (log EvGetLastRecord ?s0)"
  obtain r3 m3 s3 where lt: "loadTensors lib (tensors model) Map.empty ?s2 = (r3, m3, s3)"
    by (metis prod_cases3)
  obtain r s' where de: "deserialize lib ?api load_module_lookup ?s0 = (r, s')" by force
  from assms(1,2) de have r: "r = None" and root: "root = world s'"
    by (auto simp: load_stream_def ScriptModuleDeserializer_stream_def split: option.splits)
  from de r assms(3,4,5) lt have r3: "r3 = None"
    by (cases r3) (auto simp: deserialize_def loadTensorTable_def Let_def)
  from de r assms(3,4,5) lt r3
  have cm: "convertModule lib ?api load_module_lookup (main_module model) s3 = (None, s')"
    by (simp add: deserialize_def loadTensorTable_def Let_def)
  from loadTensors_frame [OF lt] have k3: "world s3 = new_Module" "moduleStack_m s3 = []"
    by simp_all
  from load_convert_shape(1) [OF cm refl refl refl] k3 root
  show ?thesis by (simp add: new_Module_def)
qed

text \<open>
  C3, as the code has it. A build that returns has left the module stack as it found
  it and has made its calls in depth-first pre-order: at each module the lookup under
  the current qualified name and the optimize flag, then the submodules from left to
  right, each under the qualified name extended by its own name, then all parameters
  in order, and only then the fetch of the code arena and its hand-over to the code
  loader. The lookup callback of \<^verbatim>\<open>load\<close> registers a submodule only where
  the name is not yet found, so the tree that \<^verbatim>\<open>load\<close> returns has the shape of
  the descriptor tree (same names, same order of children) when the submodules of
  every descriptor have pairwise distinct names.
\<close>

theorem build_traversal_shape:
  "(convertModule lib api lk d s = (None, s') \<longrightarrow>
      moduleStack_m s' = moduleStack_m s \<and>
      map erase (new_events s s') =
        build_events lib (reader_m s) (tensor_table_m s) (moduleStack_m s) d) \<and>
   (load_stream lib loader is = Inr root \<and>
    PyTorchStreamReader lib is = Inr rd \<and>
    getLastRecord rd = Inr (data_ptr, data_size) \<and>
    JsonToBinaryString lib (take (unat data_size) data_ptr) = Inr binary_string \<and>
    ParseFromString lib binary_string = Some model \<and>
    distinct_names (main_module model) \<longrightarrow>
      module_shape root = def_shape (main_module model))"
proof (intro conjI impI)
  assume cm: "convertModule lib api lk d s = (None, s')"
  from convert_run_frame(1) [OF cm] show "moduleStack_m s' = moduleStack_m s" by simp
  from convert_trace(1) [OF cm refl]
  show "map erase (new_events s s') =
      build_events lib (reader_m s) (tensor_table_m s) (moduleStack_m s) d" .
next
  assume a: "load_stream lib loader is = Inr root \<and>
    PyTorchStreamReader lib is = Inr rd \<and>
    getLastRecord rd = Inr (data_ptr, data_size) \<and>
    JsonToBinaryString lib (take (unat data_size) data_ptr) = Inr binary_string \<and>
    ParseFromString lib binary_string = Some model \<and>
    distinct_names (main_module model)"
  then have "module_shape root = grow (main_module model) (Shape [])"
    by (intro load_stream_shape [of lib loader "is" root rd data_ptr data_size binary_string])
       simp_all
  with a show "module_shape root = def_shape (main_module model)"
    by (simp add: grow_distinct)
qed

lemma ex_load_stream:
  "load_stream ex_lib ex_loader (IStream False []) =
     Inr (projr (load_stream ex_lib ex_loader (IStream False [])))"
  by (simp add: load_stream_def ScriptModuleDeserializer_stream_def deserialize_def
      loadTensorTable_def loadTensor_def ex_defs log_def th_tensor_def Let_def
      convertModule_arena_def load_module_lookup_def script_module_api_def ex_loader_def)

theorem build_traversal_shape_witness:
  "moduleStack_m (snd (convertModule ex_lib (script_module_api ex_loader) load_module_lookup
      ex_module ex_loaded)) = moduleStack_m ex_loaded \<and>
   map erase (new_events ex_loaded (snd (convertModule ex_lib (script_module_api ex_loader)
      load_module_lookup ex_module ex_loaded))) =
     [EvModuleLookup [], EvSetOptimized () True,
      EvModuleLookup [''sub''], EvSetOptimized () False,
      EvRegisterParameter () ''bias'' (th_tensor 1 (ex_tensors ! 2)) False,
      EvGetRecordWithKey 10,
      EvImportMethods () [102, 103] (tensor_table_m ex_loaded),
      EvRegisterParameter () ''weight'' (th_tensor 0 (ex_tensors ! 0)) False,
      EvRegisterParameter () ''running_mean'' (th_tensor 0 (ex_tensors ! 1)) True,
      EvGetRecordWithKey 9,
      EvImportMethods () [99, 100, 101] (tensor_table_m ex_loaded)] \<and>
   distinct_names (main_module ex_model) \<and>
   module_shape (projr (load_stream ex_lib ex_loader (IStream False []))) =
     Shape [(''sub'', Shape [])] \<and>
   def_shape (main_module ex_model) = Shape [(''sub'', Shape [])]"
proof -
  note t = build_traversal_shape [of ex_lib "script_module_api ex_loader" load_module_lookup
      ex_module ex_loaded
      "snd (convertModule ex_lib (script_module_api ex_loader) load_module_lookup ex_module
         ex_loaded)"
      ex_loader "IStream False []" "projr (load_stream ex_lib ex_loader (IStream False []))"
      ex_reader "[123, 125]" 2 "[8]" ex_model]
  have d: "distinct_names (main_module ex_model)"
    by (simp add: ex_model_def ex_module_def)
  have sh: "def_shape (main_module ex_model) = Shape [(''sub'', Shape [])]"
    by (simp add: ex_model_def ex_module_def)
  have pre: "PyTorchStreamReader ex_lib (IStream False []) = Inr ex_reader \<and>
      getLastRecord ex_reader = Inr ([123, 125], 2) \<and>
      JsonToBinaryString ex_lib (take (unat (2 :: u64)) [123, 125]) = Inr [8] \<and>
      ParseFromString ex_lib [8] = Some ex_model"
    by (simp add: ex_lib_def ex_reader_def)
  from t ex_convertModule have a: "moduleStack_m (snd (convertModule ex_lib
      (script_module_api ex_loader) load_module_lookup ex_module ex_loaded)) =
        moduleStack_m ex_loaded"
    and b: "map erase (new_events ex_loaded (snd (convertModule ex_lib
      (script_module_api ex_loader) load_module_lookup ex_module ex_loaded))) =
        build_events ex_lib (reader_m ex_loaded) (tensor_table_m ex_loaded)
          (moduleStack_m ex_loaded) ex_module"
    by simp_all
  have be: "build_events ex_lib (reader_m ex_loaded) (tensor_table_m ex_loaded)
          (moduleStack_m ex_loaded) ex_module =
     [EvModuleLookup [], EvSetOptimized () True,
      EvModuleLookup [''sub''], EvSetOptimized () False,
      EvRegisterParameter () ''bias'' (th_tensor 1 (ex_tensors ! 2)) False,
      EvGetRecordWithKey 10,
      EvImportMethods () [102, 103] (tensor_table_m ex_loaded),
      EvRegisterParameter () ''weight'' (th_tensor 0 (ex_tensors ! 0)) False,
      EvRegisterParameter () ''running_mean'' (th_tensor 0 (ex_tensors ! 1)) True,
      EvGetRecordWithKey 9,
      EvImportMethods () [99, 100, 101] (tensor_table_m ex_loaded)]"
    by (simp add: ex_loaded_eq ex_module_def ex_lib_def ex_reader_def arena_record_def
        register_event_def)
  from t ex_load_stream pre d
  have c: "module_shape (projr (load_stream ex_lib ex_loader (IStream False []))) =
      def_shape (main_module ex_model)"
    by blast
  from a b be c d sh show ?thesis by simp
qed

text \<open>
  The shape part of the claim as stated fails when two submodules have the same name:
  the second lookup finds the module registered by the first, and the tree has one
  child where the descriptor has two.
\<close>

theorem build_shape_counterexample:
  "load_stream twins_lib ex_loader (IStream False []) =
     Inr (Module False
            [(''a'', Module False [] [] [([102, 103], []), ([102, 103], [])])] []
            [([99, 100, 101], [])]) \<and>
   module_shape (Module False
            [(''a'', Module False [] [] [([102, 103], []), ([102, 103], [])])] []
            [([99, 100, 101], [])]) = Shape [(''a'', Shape [])] \<and>
   def_shape (main_module twins_model) = Shape [(''a'', Shape []), (''a'', Shape [])]"
  by (simp add: load_stream_def ScriptModuleDeserializer_stream_def deserialize_def
      loadTensorTable_def twins_lib_def twins_model_def ex_lib_def ex_reader_def log_def Let_def
      convertModule_arena_def load_module_lookup_def script_module_api_def ex_loader_def
      new_Module_def Module_set_optimized_def Module_add_methods_def find_module_def
      register_module_def)

subsection \<open>Shared storages in one run of deserialize\<close>

lemma loadTensors_only_fetches:
  "loadTensors lib ts m s = (r, m', s') \<Longrightarrow>
     \<exists>evs. trace s' = trace s @ evs \<and> list_all (\<lambda>e. \<not> is_module_lookup e) evs"
proof (induction ts arbitrary: m s)
  case Nil
  then show ?case by simp
next
  case (Cons t ts)
  obtain x m1 s1 where lt: "loadTensor lib t m s = (x, m1, s1)"
    by (metis prod_cases3)
  show ?case
  proof (cases x)
    case (Inl e)
    with lt Cons.prems loadTensor_Inl [of lib t m s e m1 s1]
    show ?thesis by (auto simp: is_module_lookup_def)
  next
    case (Inr v)
    let ?s2 = "s1\<lparr>tensor_table_m := tensor_table_m s1 @ [v]\<rparr>"
    from lt Inr Cons.prems have rec: "loadTensors lib ts m1 ?s2 = (r, m', s')" by simp
    from loadTensor_Inr [of lib t m s v m1 s1] lt Inr
    have "\<exists>evs. trace s1 = trace s @ evs \<and> list_all (\<lambda>e. \<not> is_module_lookup e) evs"
      by (auto simp: is_module_lookup_def split: option.splits)
    then obtain a where a: "trace s1 = trace s @ a" "list_all (\<lambda>e. \<not> is_module_lookup e) a"
      by blast
    from Cons.IH [OF rec] obtain b where b: "trace s' = trace s1 @ b"
      "list_all (\<lambda>e. \<not> is_module_lookup e) b"
      by auto
    from a b show ?thesis by (intro exI [of _ "a @ b"]) simp
  qed
qed

lemma convertModule_starts_with_lookup:
  assumes "convertModule lib api lk d s = (r, s')"
  shows "\<exists>evs. trace s' = trace s @ EvModuleLookup (moduleStack_m s) # evs"
proof (cases d)
  case (ModuleDef nm opt subs params arena)
  let ?s1 = "log (EvModuleLookup (moduleStack_m s)) s"
  obtain x w where lk: "lk (moduleStack_m s) (world s) = (x, w)" by force
  show ?thesis
  proof (cases x)
    case (Inl e)
    with lk assms ModuleDef have "s' = ?s1\<lparr>world := w\<rparr>" by (simp add: Let_def)
    then show ?thesis by simp
  next
    case (Inr h)
    define s3 where "s3 = (log (EvSetOptimized h opt) (?s1\<lparr>world := w\<rparr>))
        \<lparr>world := set_optimized api h opt w\<rparr>"
    have t3: "trace s3 = trace s @ [EvModuleLookup (moduleStack_m s), EvSetOptimized h opt]"
      by (simp add: s3_def)
    obtain r4 s4 where sub: "convertSubmodules lib api lk subs s3 = (r4, s4)" by force
    from convert_run_frame(2) [OF sub] have t4: "trace s4 = trace s3 @ new_events s3 s4"
      by (simp add: run_frame_def)
    from assms ModuleDef lk Inr sub have run: "(case r4 of
          Some e \<Rightarrow> (Some e, s4)
        | None \<Rightarrow> (case convertModule_parameters api h params s4 of
            (Some e, s5) \<Rightarrow> (Some e, s5)
          | (None, s5) \<Rightarrow> convertModule_arena lib api h (ModuleDef nm opt subs params arena) s5)) = (r, s')"
      by (simp add: Let_def s3_def split: option.splits)
    show ?thesis
    proof (cases r4)
      case (Some e)
      with run t3 t4 show ?thesis by auto
    next
      case None
      obtain r5 s5 where par: "convertModule_parameters api h params s4 = (r5, s5)" by force
      from convertModule_parameters_frame [OF par] obtain e5 where
        t5: "trace s5 = trace s4 @ e5" by auto
      show ?thesis
      proof (cases r5)
        case (Some e)
        with run None par t3 t4 t5 show ?thesis by auto
      next
        case n5: None
        with run None par
        have ar: "convertModule_arena lib api h (ModuleDef nm opt subs params arena) s5 = (r, s')"
          by simp
        from convertModule_arena_run_frame [OF ar]
        have "trace s' = trace s5 @ new_events s5 s'" by (simp add: run_frame_def)
        with t3 t4 t5 show ?thesis by simp
      qed
    qed
  qed
qed


text \<open>
  C1, as the code has it. In one run of \<open>deserialize\<close>, two tensor descriptors whose
  storage references carry the same record key are materialized as tensors holding
  the same storage handle, a valid index into the storage objects, and before the
  build of the module tree starts (before the first module lookup) the record of that
  key has been fetched from the reader exactly once. The map that remembers the
  fetched records belongs to the loading of the tensor table; the fetch of a code
  arena during the build does not consult it.
\<close>

theorem deserialize_shares_storage:
  assumes "deserialize lib api module_lookup s = (r, s')"
    and "tensor_table_m s = []"
    and "getLastRecord (reader_m s) = Inr (data_ptr, data_size)"
    and "JsonToBinaryString lib (take (unat data_size) data_ptr) = Inr binary_string"
    and "ParseFromString lib binary_string = Some model"
    and "i < length (tensor_table_m s')" and "j < length (tensor_table_m s')"
    and "key_of lib (tensors model ! i) = Some k"
    and "key_of lib (tensors model ! j) = Some k"
  shows "t_storage (tensor_table_m s' ! i) = t_storage (tensor_table_m s' ! j) \<and>
    t_storage (tensor_table_m s' ! i) < length (storages s') \<and>
    count_list (takeWhile (\<lambda>e. \<not> is_module_lookup e) (new_events s s'))
      (EvGetRecordWithKey k) = 1"
proof -
  let ?json = "take (unat data_size) data_ptr"
  let ?s2 = "log (EvJsonToBinaryString ?json) (log EvGetLastRecord s)"
  let ?P = "\<lambda>e :: 'b event. \<not> is_module_lookup e"
  obtain r3 s3 where lt: "loadTensorTable lib model ?s2 = (r3, s3)" by force
  have t2: "tensor_table_m ?s2 = []" using assms(2) by simp
  obtain a where a: "trace s3 = trace ?s2 @ a" "list_all ?P a"
    using lt loadTensors_only_fetches [of lib "tensors model" Map.empty ?s2]
    by (auto simp: loadTensorTable_def split: prod.splits)
  have cnt: "fetches (length (trace ?s2)) s3 k = count_list a (EvGetRecordWithKey k)"
    using a(1) by (simp add: fetches_def)
  have de: "deserialize lib api module_lookup s =
      (case r3 of Some e \<Rightarrow> (Some e, s3)
       | None \<Rightarrow> convertModule lib api module_lookup (main_module model) s3)"
    using assms(3,4,5) lt by (simp add: deserialize_def Let_def split: option.splits)
  have pre: "list_all ?P ([EvGetLastRecord, EvJsonToBinaryString ?json] @ a)"
    using a(2) by (simp add: is_module_lookup_def)
  have "tensor_table_m s' = tensor_table_m s3 \<and> storages s' = storages s3 \<and>
      takeWhile ?P (new_events s s') = [EvGetLastRecord, EvJsonToBinaryString ?json] @ a"
  proof (cases r3)
    case (Some e)
    with de assms(1) have "s' = s3" by simp
    moreover have "new_events s s3 = [EvGetLastRecord, EvJsonToBinaryString ?json] @ a"
      using a(1) by (simp add: new_events_def)
    ultimately show ?thesis
      using pre by (simp add: takeWhile_eq_all_conv [THEN iffD2] list_all_iff)
  next
    case None
    with de assms(1)
    have cm: "convertModule lib api module_lookup (main_module model) s3 = (r, s')" by simp
    from convertModule_starts_with_lookup [OF cm] obtain evs where
      evs: "trace s' = trace s3 @ EvModuleLookup (moduleStack_m s3) # evs" by blast
    have "new_events s s' = ([EvGetLastRecord, EvJsonToBinaryString ?json] @ a) @
        EvModuleLookup (moduleStack_m s3) # evs"
      using a(1) evs by (simp add: new_events_def)
    then have "takeWhile ?P (new_events s s') = [EvGetLastRecord, EvJsonToBinaryString ?json] @ a"
      using pre by (simp only: takeWhile_append2 list_all_iff)
        (simp add: is_module_lookup_def list_all_iff)
    with convert_run_frame(1) [OF cm] show ?thesis by (simp add: run_frame_def)
  qed
  then have k: "tensor_table_m s' = tensor_table_m s3" "storages s' = storages s3"
    and tw: "takeWhile ?P (new_events s s') = [EvGetLastRecord, EvJsonToBinaryString ?json] @ a"
    by simp_all
  from loadTensorTable_shares [OF lt t2, of i j k] assms(6-9) k cnt
  have "t_storage (tensor_table_m s' ! i) = t_storage (tensor_table_m s' ! j) \<and>
    t_storage (tensor_table_m s' ! i) < length (storages s') \<and>
    count_list a (EvGetRecordWithKey k) = 1"
    by simp
  with tw show ?thesis by simp
qed

theorem deserialize_shares_storage_witness:
  "t_storage (tensor_table_m (snd (deserialize ex_lib (script_module_api ex_loader)
      load_module_lookup ex_deserializer)) ! 0) = 0 \<and>
   t_storage (tensor_table_m (snd (deserialize ex_lib (script_module_api ex_loader)
      load_module_lookup ex_deserializer)) ! 1) = 0 \<and>
   length (storages (snd (deserialize ex_lib (script_module_api ex_loader)
      load_module_lookup ex_deserializer))) = 2 \<and>
   count_list (takeWhile (\<lambda>e. \<not> is_module_lookup e) (new_events ex_deserializer
      (snd (deserialize ex_lib (script_module_api ex_loader) load_module_lookup
         ex_deserializer)))) (EvGetRecordWithKey 7) = 1"
  using deserialize_shares_storage [OF ex_deserialize, of "[123, 125]" 2 "[8]" ex_model 0 1 7]
  by (simp add: deserialize_def loadTensorTable_def loadTensor_def ex_defs log_def th_tensor_def
      Let_def convertModule_arena_def load_module_lookup_def script_module_api_def ex_loader_def
      key_of_def new_events_def is_module_lookup_def)

text \<open>
  The claim as stated fails when a code arena carries the key of a storage record: the
  model below has two tensors on key 7 and a main module whose arena is key 7, and in
  one successful run of \<open>deserialize\<close> the record of key 7 is fetched twice.
\<close>

theorem fetched_twice_counterexample:
  "key_of arena_key_lib (tensors arena_key_model ! 0) = Some 7 \<and>
   key_of arena_key_lib (tensors arena_key_model ! 1) = Some 7 \<and>
   fst (deserialize arena_key_lib (script_module_api ex_loader) load_module_lookup
          ex_deserializer) = None \<and>
   trace (snd (deserialize arena_key_lib (script_module_api ex_loader) load_module_lookup
          ex_deserializer)) =
     [EvGetLastRecord, EvJsonToBinaryString [123, 125], EvGetRecordWithKey 7,
      EvModuleLookup [], EvSetOptimized [] False, EvGetRecordWithKey 7,
      EvImportMethods [] [1, 2, 3, 4, 5, 6, 7, 8, 9, 10]
        (tensor_table_m (snd (deserialize arena_key_lib (script_module_api ex_loader)
           load_module_lookup ex_deserializer)))] \<and>
   fetches 0 (snd (deserialize arena_key_lib (script_module_api ex_loader) load_module_lookup
          ex_deserializer)) 7 = 2"
  by (simp add: deserialize_def loadTensorTable_def loadTensor_def arena_key_lib_def
      arena_key_model_def ex_lib_def ex_reader_def ex_deserializer_def log_def th_tensor_def
      Let_def convertModule_arena_def load_module_lookup_def script_module_api_def ex_loader_def
      key_of_def fetches_def)

end
